(* ===== verification/Py_Prelude.thy ===== *)
theory Py_Prelude
  imports Complex_Main
begin

text \<open>
  Shared vocabulary of the development: the Python list idioms that
  \<^verbatim>\<open>src/Hacker.py\<close> uses over and over, each as one executable HOL function,
  and the generic lemmas the component theories rely on.

  \<^item> \<open>last_n n xs\<close> is the slice \<^verbatim>\<open>xs[-n:]\<close> for a positive literal \<open>n\<close>;
    \<open>slice i j xs\<close> is \<^verbatim>\<open>xs[i:j]\<close> for non-negative bounds. Both clamp at the ends
    of the list, as Python slices do, so neither can fail.
  \<^item> \<open>py_range start stop step\<close> is \<^verbatim>\<open>range(start, stop, step)\<close> for a positive
    step; \<open>count_where P xs\<close> is \<^verbatim>\<open>sum(1 for x in xs if P(x))\<close>.
  \<^item> \<open>Counter xs\<close> is \<^verbatim>\<open>collections.Counter(xs)\<close> as the association list of
    its \<^verbatim>\<open>items()\<close>: keys in the order of their first insertion, each with its
    count. \<open>counter_add\<close> is one \<^verbatim>\<open>counter[k] += 1\<close>.
  \<^item> \<open>py_max key xs\<close> is \<^verbatim>\<open>max(xs, key=key)\<close>: the first element whose key is
    maximal, \<open>None\<close> where Python raises \<^verbatim>\<open>ValueError\<close> on an empty sequence.
    \<^verbatim>\<open>Counter.most_common(1)\<close> is the same selection over the items.

  The lemmas are grouped per idiom: lengths and elements of slices, the counter
  as the table of \<open>count_list\<close> in the order of first occurrence, the selection
  of \<open>py_max\<close> as the first element that no other exceeds, and the pigeonhole
  principle on lists. The collection \<open>py_simps\<close> holds the
  evaluation rules that turn an idiom applied to a literal into a plain list.
\<close>

section \<open>Definitions\<close>

named_theorems py_simps "evaluation rules for the Python list idioms"

definition last_n :: "nat \<Rightarrow> 'a list \<Rightarrow> 'a list" where
  "last_n n xs = drop (length xs - n) xs"

definition slice :: "nat \<Rightarrow> nat \<Rightarrow> 'a list \<Rightarrow> 'a list" where
  "slice i j xs = take (j - i) (drop i xs)"

definition py_range :: "nat \<Rightarrow> nat \<Rightarrow> nat \<Rightarrow> nat list" where
  "py_range start stop step =
     map (\<lambda>k. start + k * step) [0..<(stop + step - 1 - start) div step]"

definition count_where :: "('a \<Rightarrow> bool) \<Rightarrow> 'a list \<Rightarrow> nat" where
  "count_where P xs = length (filter P xs)"

type_synonym 'a counter = "('a \<times> nat) list"

fun counter_add :: "'a \<Rightarrow> 'a counter \<Rightarrow> 'a counter" where
  "counter_add k [] = [(k, 1)]"
| "counter_add k ((k', n) # kvs) =
     (if k = k' then (k', Suc n) # kvs else (k', n) # counter_add k kvs)"

definition Counter :: "'a list \<Rightarrow> 'a counter" where
  "Counter xs = foldl (\<lambda>m k. counter_add k m) [] xs"

fun max_from :: "('a \<Rightarrow> 'b::linorder) \<Rightarrow> 'a \<Rightarrow> 'a list \<Rightarrow> 'a" where
  "max_from key best [] = best"
| "max_from key best (x # xs) = max_from key (if key best < key x then x else best) xs"

definition py_max :: "('a \<Rightarrow> 'b::linorder) \<Rightarrow> 'a list \<Rightarrow> 'a option" where
  "py_max key xs = (case xs of [] \<Rightarrow> None | x # ys \<Rightarrow> Some (max_from key x ys))"

section \<open>Slices\<close>

lemma length_last_n [simp]: "length (last_n n xs) = min n (length xs)"
  by (simp add: last_n_def)

lemma last_n_all: "length xs \<le> n \<Longrightarrow> last_n n xs = xs"
  by (simp add: last_n_def)

lemma last_n_append: "length ys = n \<Longrightarrow> last_n n (xs @ ys) = ys"
  by (simp add: last_n_def)

lemma set_last_n: "set (last_n n xs) \<subseteq> set xs"
  by (simp add: last_n_def set_drop_subset)

lemma last_n_replicate [simp]: "last_n k (replicate n x) = replicate (min k n) x"
  by (simp add: last_n_def min_def)

lemma last_n_Nil [simp]: "last_n n [] = []"
  by (simp add: last_n_def)

lemma length_slice [simp]: "length (slice i j xs) = min (j - i) (length xs - i)"
  by (simp add: slice_def)

lemma set_slice: "set (slice i j xs) \<subseteq> set xs"
  unfolding slice_def by (meson set_take_subset set_drop_subset subset_trans)

lemma nth_slice: "k < j - i \<Longrightarrow> i + k < length xs \<Longrightarrow> slice i j xs ! k = xs ! (i + k)"
  by (simp add: slice_def)

lemma slice_window: "i + n \<le> length xs \<Longrightarrow> length (slice i (i + n) xs) = n"
  by simp

lemma last_slice:
  assumes "i < j" and "j \<le> length xs"
  shows "last (slice i j xs) = xs ! (j - 1)"
proof -
  from assms have len: "length (slice i j xs) = j - i" by simp
  with assms have "slice i j xs \<noteq> []" by (metis length_0_conv zero_less_diff less_numeral_extra(3))
  then have "last (slice i j xs) = slice i j xs ! (j - i - 1)"
    by (simp add: last_conv_nth len del: length_slice)
  also from assms have "\<dots> = xs ! (i + (j - i - 1))"
    by (intro nth_slice) auto
  also from assms have "i + (j - i - 1) = j - 1" by simp
  finally show ?thesis .
qed

section \<open>Ranges and counting\<close>

lemma py_range_step1: "py_range a b 1 = [a..<b]"
proof (cases "a \<le> b")
  case True
  then have "map (\<lambda>k. a + k) [0..<b - a] = [a..<b]"
    by (simp add: map_add_upt add.commute)
  then show ?thesis
    by (simp add: py_range_def)
next
  case False
  then show ?thesis
    by (simp add: py_range_def)
qed

lemma py_range_Suc_0 [simp]: "py_range a b (Suc 0) = [a..<b]"
  using py_range_step1 [of a b] by simp

lemma py_range_0_6_2 [py_simps]: "py_range 0 6 2 = [0, 2, 4]"
  by (simp add: py_range_def upt_rec)

lemma py_range_3_7_1 [py_simps]: "py_range 3 7 1 = [3, 4, 5, 6]"
  by (simp add: py_range_def upt_rec)

lemma count_list_replicate [simp]:
  "count_list (replicate n x) y = (if x = y then n else 0)"
  by (induction n) auto

lemma count_where_Nil [simp]: "count_where P [] = 0"
  by (simp add: count_where_def)

lemma count_where_Cons [simp]:
  "count_where P (x # xs) = (if P x then Suc (count_where P xs) else count_where P xs)"
  by (simp add: count_where_def)

lemma count_where_le: "count_where P xs \<le> length xs"
  by (simp add: count_where_def)

lemma count_where_cong:
  "(\<And>x. x \<in> set xs \<Longrightarrow> P x = Q x) \<Longrightarrow> count_where P xs = count_where Q xs"
  unfolding count_where_def by (metis (mono_tags, lifting) filter_cong)

section \<open>Counter: the dictionary of counts refines \<open>count_list\<close>\<close>

lemma Counter_Nil [simp]: "Counter [] = []"
  by (simp add: Counter_def)

lemma Counter_snoc: "Counter (xs @ [x]) = counter_add x (Counter xs)"
  by (simp add: Counter_def)

lemma keys_counter_add:
  "map fst (counter_add k m) = (if k \<in> fst ` set m then map fst m else map fst m @ [k])"
  by (induction m) force+

lemma distinct_counter_add:
  "distinct (map fst m) \<Longrightarrow> distinct (map fst (counter_add k m))"
  by (simp add: keys_counter_add)

lemma map_of_counter_add:
  "map_of (counter_add k m) =
     (map_of m)(k \<mapsto> (case map_of m k of None \<Rightarrow> 1 | Some n \<Rightarrow> Suc n))"
  by (induction m) (auto simp: fun_eq_iff)

lemma distinct_Counter: "distinct (map fst (Counter xs))"
  by (induction xs rule: rev_induct) (simp_all add: Counter_snoc distinct_counter_add)

lemma map_of_Counter:
  "map_of (Counter xs) k = (if k \<in> set xs then Some (count_list xs k) else None)"
  by (induction xs rule: rev_induct) (auto simp: Counter_snoc map_of_counter_add)

text \<open>
  The items of the counter are exactly the elements of the list with their
  number of occurrences: the operational dictionary (built by one pass of
  increments) implements the specification \<open>count_list\<close>.
\<close>

lemma Counter_iff:
  "(k, n) \<in> set (Counter xs) \<longleftrightarrow> k \<in> set xs \<and> n = count_list xs k"
proof -
  have "(k, n) \<in> set (Counter xs) \<longleftrightarrow> map_of (Counter xs) k = Some n"
    by (simp add: distinct_Counter)
  then show ?thesis
    by (auto simp: map_of_Counter)
qed

lemma Counter_eq_Nil [simp]: "Counter xs = [] \<longleftrightarrow> xs = []"
proof (cases xs)
  case Nil
  then show ?thesis by simp
next
  case (Cons x ys)
  then have "(x, count_list xs x) \<in> set (Counter xs)"
    by (simp add: Counter_iff)
  with Cons show ?thesis by auto
qed

lemma counter_add_same: "counter_add x [(x, n)] = [(x, Suc n)]"
  by simp

lemma Counter_replicate: "Counter (replicate (Suc n) x) = [(x, Suc n)]"
proof (induction n)
  case 0
  show ?case by (simp add: Counter_def)
next
  case (Suc n)
  have "replicate (Suc (Suc n)) x = replicate (Suc n) x @ [x]"
    by (simp add: replicate_append_same)
  then show ?case
    using Suc by (simp only: Counter_snoc counter_add_same)
qed

lemma map_fst_counter_add:
  "map fst (counter_add k m) = (if k \<in> set (map fst m) then map fst m else map fst m @ [k])"
  by (induction m) force+

lemma Counter_order: "map fst (Counter xs) = rev (remdups (rev xs))"
proof (induction xs rule: rev_induct)
  case Nil
  show ?case by simp
next
  case (snoc x xs)
  then show ?case by (simp add: Counter_snoc map_fst_counter_add)
qed

lemma hd_counter_add: "fst (hd (counter_add k m)) = (if m = [] then k else fst (hd m))"
  by (cases m) auto

lemma hd_Counter: "xs \<noteq> [] \<Longrightarrow> fst (hd (Counter xs)) = hd xs"
proof (induction xs rule: rev_induct)
  case Nil
  then show ?case by simp
next
  case (snoc x xs)
  show ?case
  proof (cases "xs = []")
    case True
    then show ?thesis by (simp add: Counter_def)
  next
    case False
    with snoc show ?thesis by (simp add: Counter_snoc hd_counter_add)
  qed
qed

lemma keys_Counter: "fst ` set (Counter xs) = set xs"
proof -
  have "k \<in> fst ` set (Counter xs) \<longleftrightarrow> k \<in> set xs" for k
    using Counter_iff [of k _ xs] by (force simp: image_iff)
  then show ?thesis by blast
qed

section \<open>max: the first maximal element\<close>

lemma max_from_cases: "max_from key b xs = b \<or> max_from key b xs \<in> set xs"
proof (induction xs arbitrary: b)
  case Nil
  show ?case by simp
next
  case (Cons x xs)
  from Cons.IH [of "if key b < key x then x else b"] show ?case
    by (auto split: if_splits)
qed

lemma max_from_ge: "key b \<le> key (max_from key b xs)"
proof (induction xs arbitrary: b)
  case Nil
  show ?case by simp
next
  case (Cons x xs)
  from Cons.IH [of "if key b < key x then x else b"] show ?case
    by (auto split: if_splits)
qed

lemma max_from_max: "y \<in> set xs \<Longrightarrow> key y \<le> key (max_from key b xs)"
proof (induction xs arbitrary: b)
  case Nil
  then show ?case by simp
next
  case (Cons x xs)
  show ?case
  proof (cases "y = x")
    case True
    have "key x \<le> key (if key b < key x then x else b)" by auto
    also have "\<dots> \<le> key (max_from key (if key b < key x then x else b) xs)"
      by (rule max_from_ge)
    finally show ?thesis using True by simp
  next
    case False
    with Cons.prems have "y \<in> set xs" by simp
    then show ?thesis by (simp add: Cons.IH)
  qed
qed

lemma py_max_None [simp]: "py_max key xs = None \<longleftrightarrow> xs = []"
  by (simp add: py_max_def split: list.splits)

lemma py_max_Nil [simp]: "py_max key [] = None"
  by (simp add: py_max_def)

lemma py_max_single [simp]: "py_max key [x] = Some x"
  by (simp add: py_max_def)

lemma py_max_in: "py_max key xs = Some m \<Longrightarrow> m \<in> set xs"
  using max_from_cases by (fastforce simp: py_max_def split: list.splits)

lemma py_max_ge: "py_max key xs = Some m \<Longrightarrow> y \<in> set xs \<Longrightarrow> key y \<le> key m"
  by (auto simp: py_max_def max_from_ge max_from_max split: list.splits)

lemma max_from_first:
  "max_from key b xs = b \<and> (\<forall>x \<in> set xs. key x \<le> key b)
   \<or> (\<exists>ys zs. xs = ys @ max_from key b xs # zs \<and> key b < key (max_from key b xs)
        \<and> (\<forall>y \<in> set ys. key y < key (max_from key b xs))
        \<and> (\<forall>z \<in> set zs. key z \<le> key (max_from key b xs)))"
proof (induction xs arbitrary: b)
  case Nil
  show ?case by simp
next
  case (Cons x xs)
  let ?b = "if key b < key x then x else b"
  let ?r = "max_from key ?b xs"
  from Cons.IH [of ?b] consider
      (same) "?r = ?b" "\<forall>x \<in> set xs. key x \<le> key ?b"
    | (later) ys zs where "xs = ys @ ?r # zs" "key ?b < key ?r"
        "\<forall>y \<in> set ys. key y < key ?r" "\<forall>z \<in> set zs. key z \<le> key ?r"
    by blast
  then show ?case
  proof cases
    case same
    show ?thesis
    proof (cases "key b < key x")
      case True
      with same have "x # xs = [] @ max_from key b (x # xs) # xs"
          "\<forall>z \<in> set xs. key z \<le> key (max_from key b (x # xs))"
        by simp_all
      with True same show ?thesis by (intro disjI2 exI [of _ "[]"] exI [of _ xs]) simp
    next
      case False
      with same show ?thesis by auto
    qed
  next
    case later
    then have "x # xs = (x # ys) @ max_from key b (x # xs) # zs" by simp
    moreover from later have "key b < key ?r" "key x < key ?r"
      by (auto split: if_splits)
    ultimately show ?thesis
      using later by (intro disjI2 exI [of _ "x # ys"] exI [of _ zs]) simp
  qed
qed

lemma py_max_first:
  assumes "py_max key xs = Some m"
  shows "\<exists>ys zs. xs = ys @ m # zs \<and> (\<forall>y \<in> set ys. key y < key m)
           \<and> (\<forall>z \<in> set zs. key z \<le> key m)"
proof (cases xs)
  case Nil
  with assms show ?thesis by (simp add: py_max_def)
next
  case (Cons b bs)
  with assms have m: "m = max_from key b bs" by (simp add: py_max_def)
  from max_from_first [of key b bs] show ?thesis
  proof
    assume "max_from key b bs = b \<and> (\<forall>x \<in> set bs. key x \<le> key b)"
    with m Cons show ?thesis by (intro exI [of _ "[]"] exI [of _ bs]) simp
  next
    assume "\<exists>ys zs. bs = ys @ max_from key b bs # zs \<and> key b < key (max_from key b bs)
        \<and> (\<forall>y \<in> set ys. key y < key (max_from key b bs))
        \<and> (\<forall>z \<in> set zs. key z \<le> key (max_from key b bs))"
    then obtain ys zs where "bs = ys @ m # zs" "key b < key m"
        "\<forall>y \<in> set ys. key y < key m" "\<forall>z \<in> set zs. key z \<le> key m"
      unfolding m by blast
    with Cons show ?thesis by (intro exI [of _ "b # ys"] exI [of _ zs]) simp
  qed
qed

lemma py_max_hd:
  assumes "xs \<noteq> []" and "\<forall>x \<in> set xs. key x \<le> key (hd xs)"
  shows "py_max key xs = Some (hd xs)"
proof -
  from assms(1) obtain m where m: "py_max key xs = Some m"
    by (cases "py_max key xs") simp_all
  from py_max_first [OF m] obtain ys zs where xs: "xs = ys @ m # zs"
      and ys: "\<forall>y \<in> set ys. key y < key m"
    by blast
  have "ys = []"
  proof (rule ccontr)
    assume "ys \<noteq> []"
    with xs have "hd xs \<in> set ys" "m \<in> set xs" by (cases ys; simp)+
    with ys assms(2) show False by force
  qed
  with xs m show ?thesis by simp
qed

lemma py_max_Some: "xs \<noteq> [] \<Longrightarrow> \<exists>m. py_max key xs = Some m"
  by (cases "py_max key xs") simp_all

section \<open>Pigeonhole on lists\<close>

lemma not_distinct_count: "\<not> distinct xs \<Longrightarrow> \<exists>x \<in> set xs. 2 \<le> count_list xs x"
proof (induction xs)
  case Nil
  then show ?case by simp
next
  case (Cons a xs)
  show ?case
  proof (cases "a \<in> set xs")
    case True
    then have "0 < count_list xs a" by (induction xs) auto
    then show ?thesis by auto
  next
    case False
    with Cons.prems have "\<not> distinct xs" by simp
    then obtain x where x: "x \<in> set xs" "2 \<le> count_list xs x"
      using Cons.IH by blast
    with False have "x \<noteq> a" by auto
    with x show ?thesis by (intro bexI [of _ x]) auto
  qed
qed

lemma pigeonhole_list:
  assumes "finite A" and "set xs \<subseteq> A" and "card A < length xs"
  shows "\<exists>x \<in> set xs. 2 \<le> count_list xs x"
proof -
  have "card (set xs) \<le> card A" using assms(1,2) by (rule card_mono)
  with assms(3) have "card (set xs) \<noteq> length xs" by simp
  then have "\<not> distinct xs" using distinct_card by blast
  then show ?thesis by (rule not_distinct_count)
qed

section \<open>Sums over lists\<close>

lemma member_le_sum_list_nat:
  fixes f :: "'a \<Rightarrow> nat"
  shows "x \<in> set xs \<Longrightarrow> f x \<le> sum_list (map f xs)"
  by (induction xs) auto

lemma sum_list_map_eq_0_iff:
  fixes f :: "'a \<Rightarrow> nat"
  shows "sum_list (map f xs) = 0 \<longleftrightarrow> (\<forall>x \<in> set xs. f x = 0)"
  by (induction xs) auto

end
