(* ===== verification/Data_Model.thy ===== *)
theory Data_Model
  imports Py_Prelude
begin

text \<open>
  The data of \<^verbatim>\<open>src/Hacker.py\<close>.

  \<^item> \<open>outcome\<close>: the three strings the host ever appends to the history
    (\<^verbatim>\<open>'C'\<close> player, \<^verbatim>\<open>'V'\<close> banker, \<^verbatim>\<open>'E'\<close> tie); a \<open>history\<close> is the list
    \<^verbatim>\<open>self.results\<close>, oldest first. \<open>non_empate\<close> is the comprehension
    \<^verbatim>\<open>[r for r in self.results if r != 'E']\<close> that four methods start with.
  \<^item> \<open>level\<close>: the four strings used for \<^verbatim>\<open>'risk'\<close> and \<^verbatim>\<open>'level'\<close>, with the
    order low < medium < high < critical as a \<open>linorder\<close> instance.
  \<^item> \<open>pattern\<close>: the dictionary a detector appends. The six keys every detector
    writes are the fields of the record; the keys that only some kinds carry are
    the \<open>extra\<close> field, one constructor per group of keys. \<open>ptype\<close> is the
    \<^verbatim>\<open>'type'\<close> string. The texts \<^verbatim>\<open>'description'\<close> and \<^verbatim>\<open>'manipulation'\<close> are
    f-strings with accents: they are modelled as the message template
    (\<open>descr\<close>, \<open>manip_note\<close>) with the values the f-string interpolates.
  \<^item> Numbers: counts and scores are \<open>nat\<close>; the values Python computes with
    \<^verbatim>\<open>/\<close> (strength, predictability, confidence) are exact rationals. Every
    comparison the code makes on them is between a quotient of two small
    naturals and a decimal literal, where binary rounding does not change the
    outcome.
  \<^item> \<open>py_error\<close>: the exceptions the code can raise: a \<^verbatim>\<open>KeyError\<close> from
    \<^verbatim>\<open>p['favored_color']\<close>, \<^verbatim>\<open>p['pattern']\<close> or \<^verbatim>\<open>p['repetitions']\<close> in the
    predictor, and the \<^verbatim>\<open>IndexError\<close> of \<^verbatim>\<open>pop\<close> on an empty list in the host;
    \<open>get_repetitions\<close> is \<^verbatim>\<open>p.get('repetitions', 0)\<close>.

  \<^bold>\<open>Restrictions of the model.\<close> A pattern is a typed record, so what Python
  leaves open is fixed here, and the development says nothing beyond it:
  the six common keys are always present (a \<^verbatim>\<open>KeyError\<close> on \<^verbatim>\<open>'type'\<close>,
  \<^verbatim>\<open>'strength'\<close> or \<^verbatim>\<open>'description'\<close> and the default 0 of
  \<^verbatim>\<open>p.get('predictability', 0)\<close> do not occur, as in every dictionary the
  detectors build); the optional keys come in the three groups the detectors
  write, never one by one, so of the three lookups only \<^verbatim>\<open>p['favored_color']\<close>
  can fail in the model (a pattern with at least two repetitions has the keys of
  a cycle); a history holds only the three letters of the buttons; the windows
  of the cycle detector are lists of letters in place of joined strings.

  \<open>wf_pattern\<close> is the well-formedness invariant of a pattern: its extra keys
  are those of its type, its strength lies in [0, 1], and its predictability is
  not negative. The detector theories show that every emitted pattern satisfies it.
\<close>

section \<open>Outcomes and histories\<close>

named_theorems pattern_dicts "the dictionary literals the detectors append"

datatype outcome = C | V | E

type_synonym history = "outcome list"

definition non_empate :: "history \<Rightarrow> history" where
  "non_empate results = filter (\<lambda>r. r \<noteq> E) results"

section \<open>Levels\<close>

datatype level = low | medium | high | critical

fun level_rank :: "level \<Rightarrow> nat" where
  "level_rank low = 0"
| "level_rank medium = 1"
| "level_rank high = 2"
| "level_rank critical = 3"

instantiation level :: linorder
begin

definition less_eq_level :: "level \<Rightarrow> level \<Rightarrow> bool" where
  "less_eq_level a b \<longleftrightarrow> level_rank a \<le> level_rank b"

definition less_level :: "level \<Rightarrow> level \<Rightarrow> bool" where
  "less_level a b \<longleftrightarrow> level_rank a < level_rank b"

instance
proof
  fix x y z :: level
  show "x < y \<longleftrightarrow> x \<le> y \<and> \<not> y \<le> x"
    by (auto simp: less_eq_level_def less_level_def)
  show "x \<le> x"
    by (simp add: less_eq_level_def)
  show "x \<le> y \<Longrightarrow> y \<le> z \<Longrightarrow> x \<le> z"
    by (simp add: less_eq_level_def)
  show "x \<le> y \<Longrightarrow> y \<le> x \<Longrightarrow> x = y"
    by (cases x; cases y) (simp_all add: less_eq_level_def)
  show "x \<le> y \<or> y \<le> x"
    by (auto simp: less_eq_level_def)
qed

end

section \<open>Patterns\<close>

datatype ptype =
    micro_double_pattern | micro_alternation | hidden_cycle | artificial_balance
  | compensation_pending | strategic_tie_after_sequence | strategic_tie_before_reversal
  | intentional_break

definition startswith_strategic_tie :: "ptype \<Rightarrow> bool" where
  "startswith_strategic_tie t \<longleftrightarrow>
     t = strategic_tie_after_sequence \<or> t = strategic_tie_before_reversal"

datatype descr =
    Padrao_2x2_repetitivo nat
  | Micro_alternacao_suspeita nat
  | Ciclo_oculto_detectado history nat
  | Equilibrio_artificial nat
  | Compensacao_pendente nat nat
  | Empate_apos_sequencia nat outcome
  | Empate_antes_de_reversao outcome outcome

datatype manip_note =
    CRITICA_forcando_padrao | ALTA | Induzindo_alternancia | Ciclo_programado
  | Possivel_ciclo_induzido | Forcando_distribuicao | Deve_favorecer outcome
  | Quebrar_momentum | Mascarar_mudanca

datatype extra =
    no_extra
  | cycle_extra nat history nat
  | balance_extra nat nat nat
  | compensation_extra nat nat outcome
  | after_sequence_extra nat outcome nat
  | before_reversal_extra nat outcome outcome

record pattern =
  ptype :: ptype
  strength :: rat
  risk :: level
  description :: descr
  manipulation :: manip_note
  predictability :: rat
  extra :: extra

datatype py_error = KeyError | IndexError

definition get_repetitions :: "pattern \<Rightarrow> nat" where
  "get_repetitions p = (case extra p of cycle_extra _ _ r \<Rightarrow> r | _ \<Rightarrow> 0)"

definition lookup_repetitions :: "pattern \<Rightarrow> py_error + nat" where
  "lookup_repetitions p =
     (case extra p of cycle_extra _ _ r \<Rightarrow> Inr r | _ \<Rightarrow> Inl KeyError)"

definition lookup_pattern :: "pattern \<Rightarrow> py_error + history" where
  "lookup_pattern p =
     (case extra p of cycle_extra _ c _ \<Rightarrow> Inr c | _ \<Rightarrow> Inl KeyError)"

definition lookup_favored_color :: "pattern \<Rightarrow> py_error + outcome" where
  "lookup_favored_color p =
     (case extra p of compensation_extra _ _ c \<Rightarrow> Inr c | _ \<Rightarrow> Inl KeyError)"

section \<open>Well-formed patterns\<close>

fun extra_matches :: "ptype \<Rightarrow> extra \<Rightarrow> bool" where
  "extra_matches micro_double_pattern no_extra = True"
| "extra_matches micro_alternation no_extra = True"
| "extra_matches intentional_break no_extra = True"
| "extra_matches hidden_cycle (cycle_extra _ _ _) = True"
| "extra_matches artificial_balance (balance_extra _ _ _) = True"
| "extra_matches compensation_pending (compensation_extra _ _ _) = True"
| "extra_matches strategic_tie_after_sequence (after_sequence_extra _ _ _) = True"
| "extra_matches strategic_tie_before_reversal (before_reversal_extra _ _ _) = True"
| "extra_matches _ _ = False"

definition wf_pattern :: "pattern \<Rightarrow> bool" where
  "wf_pattern p \<longleftrightarrow>
     extra_matches (ptype p) (extra p) \<and> 0 \<le> strength p \<and> strength p \<le> 1
       \<and> 0 \<le> predictability p"

section \<open>Lemmas on the non-tie sequence\<close>

lemma non_empate_Nil [simp]: "non_empate [] = []"
  by (simp add: non_empate_def)

lemma non_empate_Cons [simp]:
  "non_empate (r # rs) = (if r = E then non_empate rs else r # non_empate rs)"
  by (simp add: non_empate_def)

lemma non_empate_append [simp]: "non_empate (xs @ ys) = non_empate xs @ non_empate ys"
  by (simp add: non_empate_def)

lemma non_empate_idem [simp]: "non_empate (non_empate h) = non_empate h"
  by (simp add: non_empate_def)

lemma length_non_empate_le: "length (non_empate h) \<le> length h"
  by (simp add: non_empate_def)

lemma E_notin_non_empate [simp]: "E \<notin> set (non_empate h)"
  by (simp add: non_empate_def)

lemma set_non_empate: "set (non_empate h) \<subseteq> {C, V}"
proof
  fix x assume "x \<in> set (non_empate h)"
  then have "x \<noteq> E" by (auto simp: non_empate_def)
  then show "x \<in> {C, V}" by (cases x) simp_all
qed

lemma non_empate_replicate [simp]:
  "non_empate (replicate n x) = (if x = E then [] else replicate n x)"
  by (simp add: non_empate_def)

lemma binary_counts:
  "set xs \<subseteq> {C, V} \<Longrightarrow> count_list xs C + count_list xs V = length xs"
  by (induction xs) auto

lemma non_empate_counts:
  "count_list (non_empate h) C + count_list (non_empate h) V = length (non_empate h)"
  by (rule binary_counts) (rule set_non_empate)

section \<open>Lemmas on levels and lookups\<close>

lemma level_rank_inj: "level_rank a = level_rank b \<longleftrightarrow> a = b"
  by (cases a; cases b) simp_all

lemma low_least [simp]: "low \<le> (l::level)"
  by (simp add: less_eq_level_def)

lemma critical_greatest [simp]: "(l::level) \<le> critical"
  by (cases l) (simp_all add: less_eq_level_def)

lemma level_le_low [simp]: "(l::level) \<le> low \<longleftrightarrow> l = low"
  by (cases l) (simp_all add: less_eq_level_def)

lemma high_le_iff: "high \<le> (l::level) \<longleftrightarrow> l = high \<or> l = critical"
  by (cases l) (simp_all add: less_eq_level_def)

lemma lookup_favored_color_wf:
  "wf_pattern p \<Longrightarrow> ptype p = compensation_pending \<Longrightarrow>
     \<exists>c. lookup_favored_color p = Inr c"
  by (cases "extra p") (auto simp: wf_pattern_def lookup_favored_color_def)

lemma lookup_favored_color_Inl:
  "lookup_favored_color p = Inl e \<Longrightarrow> e = KeyError"
  by (cases "extra p") (auto simp: lookup_favored_color_def)

lemma lookup_cycle_repetitions:
  "2 \<le> get_repetitions p \<Longrightarrow>
     \<exists>L c. extra p = cycle_extra L c (get_repetitions p)
       \<and> lookup_pattern p = Inr c \<and> lookup_repetitions p = Inr (get_repetitions p)"
  by (cases "extra p")
    (auto simp: get_repetitions_def lookup_pattern_def lookup_repetitions_def)

end
