(* ===== verification/Micro_Patterns.thy ===== *)
theory Micro_Patterns
  imports Data_Model
begin

text \<open>
  \<^verbatim>\<open>CasinoAnalyzer.analyze_micro_patterns\<close> (lines 9 to 41 of \<^verbatim>\<open>src/Hacker.py\<close>).

  \<open>double_pattern_count\<close> is the generator sum over \<^verbatim>\<open>range(0, 6, 2)\<close> on the
  last six results, \<open>micro_alternations\<close> the one over
  \<^verbatim>\<open>range(1, min(6, len(last8_non_empate)))\<close>; \<open>micro_double_dict\<close> and
  \<open>micro_alternation_dict\<close> are the two dictionary literals, and
  \<open>analyze_micro_patterns\<close> threads the list \<^verbatim>\<open>patterns\<close> through the two checks.

  The lemmas give each index loop a structural reference (\<open>pair_hit\<close> and
  \<open>double_pairs\<close> for the pairs, \<open>adjacent_changes\<close> for the alternations),
  bound the counts, show that the method equals its reference over them on
  every history, and that every emitted pattern is well-formed.
\<close>

section \<open>Definitions\<close>

definition double_pattern_count :: "history \<Rightarrow> nat" where
  "double_pattern_count last6 =
     count_where (\<lambda>i. i + 1 < 6 \<and> last6 ! i = last6 ! (i + 1) \<and> last6 ! i \<noteq> E)
       (py_range 0 6 2)"

definition micro_alternations :: "history \<Rightarrow> nat" where
  "micro_alternations last8_non_empate =
     count_where (\<lambda>i. last8_non_empate ! i \<noteq> last8_non_empate ! (i - 1))
       (py_range 1 (min 6 (length last8_non_empate)) 1)"

definition micro_double_dict :: "nat \<Rightarrow> pattern" where
  "micro_double_dict n =
     \<lparr>ptype = micro_double_pattern,
      strength = of_nat n / 3,
      risk = (if n = 3 then critical else high),
      description = Padrao_2x2_repetitivo n,
      manipulation = (if n = 3 then CRITICA_forcando_padrao else ALTA),
      predictability = 85,
      extra = no_extra\<rparr>"

definition micro_alternation_dict :: "nat \<Rightarrow> pattern" where
  "micro_alternation_dict n =
     \<lparr>ptype = micro_alternation,
      strength = of_nat n / 5,
      risk = (if n = 5 then critical else high),
      description = Micro_alternacao_suspeita n,
      manipulation = Induzindo_alternancia,
      predictability = 90,
      extra = no_extra\<rparr>"

definition analyze_micro_patterns :: "history \<Rightarrow> pattern list" where
  "analyze_micro_patterns results =
     (if length results < 6 then []
      else
        let last6 = last_n 6 results;
            n2 = double_pattern_count last6;
            patterns = (if n2 \<ge> 2 then [micro_double_dict n2] else []);
            last8_non_empate = last_n 8 (non_empate results)
        in if length last8_non_empate \<ge> 6
           then let na = micro_alternations last8_non_empate
                in if na \<ge> 4 then patterns @ [micro_alternation_dict na] else patterns
           else patterns)"

text \<open>Structural references for the two index loops.\<close>

definition pair_hit :: "outcome \<Rightarrow> outcome \<Rightarrow> nat" where
  "pair_hit a b = (if a = b \<and> a \<noteq> E then 1 else 0)"

fun double_pairs :: "history \<Rightarrow> nat" where
  "double_pairs (a # b # rest) = pair_hit a b + double_pairs rest"
| "double_pairs _ = 0"

fun adjacent_changes :: "'a list \<Rightarrow> nat" where
  "adjacent_changes (x # y # zs) = (if y \<noteq> x then 1 else 0) + adjacent_changes (y # zs)"
| "adjacent_changes _ = 0"

definition spec_history :: history where
  "spec_history = [C, C, V, V, E, C, C, V, V, C, V, V]"

lemmas [pattern_dicts] = micro_double_dict_def micro_alternation_dict_def

section \<open>The 2x2 count\<close>

text \<open>
  C23: On six results the index loop over \<^verbatim>\<open>range(0, 6, 2)\<close> counts exactly the pairs
  at offsets (0,1), (2,3) and (4,5) whose two elements are equal and not a tie.
\<close>

theorem double_pattern_count_pairs:
  "double_pattern_count [a, b, c, d, e, f] = pair_hit a b + pair_hit c d + pair_hit e f"
  by (auto simp: double_pattern_count_def pair_hit_def py_simps)

lemma double_pattern_count_le: "double_pattern_count last6 \<le> 3"
proof -
  have "double_pattern_count last6 \<le> length (py_range 0 6 2)"
    unfolding double_pattern_count_def by (rule count_where_le)
  then show ?thesis by (simp add: py_simps)
qed

section \<open>The alternation count\<close>

lemma count_where_shift:
  "count_where (\<lambda>i. P i) [Suc a..<Suc b] = count_where (\<lambda>i. P (Suc i)) [a..<b]"
proof -
  have "[Suc a..<Suc b] = map Suc [a..<b]" by (simp add: map_Suc_upt)
  then show ?thesis by (simp add: count_where_def filter_map comp_def)
qed

lemma changes_by_index_Cons:
  "count_where (\<lambda>i. (x # xs) ! i \<noteq> (x # xs) ! (i - 1)) [1..<Suc (length xs)]
     = adjacent_changes (x # xs)"
proof (induction xs arbitrary: x)
  case Nil
  show ?case by simp
next
  case (Cons y ys)
  let ?P = "\<lambda>i. (x # y # ys) ! i \<noteq> (x # y # ys) ! (i - 1)"
  have "count_where ?P [1..<Suc (length (y # ys))]
      = count_where ?P (1 # [Suc 1..<Suc (Suc (length ys))])"
    by (simp add: upt_conv_Cons del: upt_Suc)
  also have "\<dots> = (if y \<noteq> x then 1 else 0)
      + count_where ?P [Suc 1..<Suc (Suc (length ys))]"
    by simp
  also have "count_where ?P [Suc 1..<Suc (Suc (length ys))]
      = count_where (\<lambda>i. (y # ys) ! i \<noteq> (y # ys) ! (i - 1)) [1..<Suc (length ys)]"
    by (subst count_where_shift) (rule count_where_cong, auto simp: nth_Cons')
  also have "\<dots> = adjacent_changes (y # ys)"
    by (rule Cons.IH)
  finally show ?case by simp
qed

lemma changes_by_index:
  "count_where (\<lambda>i. xs ! i \<noteq> xs ! (i - 1)) [1..<length xs] = adjacent_changes xs"
proof (cases xs)
  case Nil
  then show ?thesis by simp
next
  case (Cons y ys)
  then show ?thesis using changes_by_index_Cons [of y ys] by (simp del: upt_Suc)
qed

lemma micro_alternations_index:
  "micro_alternations xs =
     count_where (\<lambda>i. take 6 xs ! i \<noteq> take 6 xs ! (i - 1)) [1..<length (take 6 xs)]"
proof -
  have "micro_alternations xs
      = count_where (\<lambda>i. xs ! i \<noteq> xs ! (i - 1)) [1..<length (take 6 xs)]"
    by (simp add: micro_alternations_def py_range_step1 min.commute)
  also have "\<dots> = count_where (\<lambda>i. take 6 xs ! i \<noteq> take 6 xs ! (i - 1)) [1..<length (take 6 xs)]"
    by (rule count_where_cong) auto
  finally show ?thesis .
qed

lemma adjacent_changes_le: "adjacent_changes xs \<le> length xs - 1"
  by (induction xs rule: adjacent_changes.induct) auto

lemma micro_alternations_le: "micro_alternations xs \<le> 5"
proof -
  have "micro_alternations xs = adjacent_changes (take 6 xs)"
    by (simp only: micro_alternations_index changes_by_index)
  moreover have "adjacent_changes (take 6 xs) \<le> length (take 6 xs) - 1"
    by (rule adjacent_changes_le)
  ultimately show ?thesis by simp
qed

text \<open>
  C22: The alternation loop counts the adjacent pairs that differ among the first
  six elements of its argument, whatever follows them: of the last eight non-tie
  results the two most recent ones are never compared.
\<close>

theorem micro_alternations_changes:
  "micro_alternations xs = adjacent_changes (take 6 xs)"
  by (simp only: micro_alternations_index changes_by_index)

section \<open>The detector\<close>

lemma analyze_micro_patterns_short:
  "length results < 6 \<Longrightarrow> analyze_micro_patterns results = []"
  by (simp add: analyze_micro_patterns_def)

lemma analyze_micro_patterns_branches:
  "6 \<le> length results \<Longrightarrow>
     analyze_micro_patterns results =
       (if 2 \<le> double_pattern_count (last_n 6 results)
        then [micro_double_dict (double_pattern_count (last_n 6 results))] else [])
     @ (if 6 \<le> length (non_empate results)
           \<and> 4 \<le> micro_alternations (last_n 8 (non_empate results))
        then [micro_alternation_dict (micro_alternations (last_n 8 (non_empate results)))]
        else [])"
  by (simp add: analyze_micro_patterns_def Let_def)

lemma wf_micro_double_dict: "n \<le> 3 \<Longrightarrow> wf_pattern (micro_double_dict n)"
  by (simp add: wf_pattern_def micro_double_dict_def)

lemma wf_micro_alternation_dict: "n \<le> 5 \<Longrightarrow> wf_pattern (micro_alternation_dict n)"
  by (simp add: wf_pattern_def micro_alternation_dict_def)

text \<open>
  Every pattern the micro detector emits is well-formed: it carries no extra
  keys, its strength is in [0, 1] and its predictability is not negative.
\<close>

lemma analyze_micro_patterns_wf: "list_all wf_pattern (analyze_micro_patterns results)"
proof (cases "length results < 6")
  case True
  then show ?thesis by (simp add: analyze_micro_patterns_short)
next
  case False
  then show ?thesis
    by (simp add: analyze_micro_patterns_branches wf_micro_double_dict
        wf_micro_alternation_dict double_pattern_count_le micro_alternations_le)
qed

lemma analyze_micro_patterns_ptype:
  "p \<in> set (analyze_micro_patterns results) \<Longrightarrow>
     ptype p = micro_double_pattern \<or> ptype p = micro_alternation"
  by (cases "length results < 6")
    (auto simp: analyze_micro_patterns_short analyze_micro_patterns_branches pattern_dicts
      split: if_splits)

lemma double_pattern_count_double_pairs:
  assumes "length xs = 6"
  shows "double_pattern_count xs = double_pairs xs"
proof -
  from assms obtain a b c d e f where "xs = [a, b, c, d, e, f]"
    by (auto simp: length_Suc_conv numeral_eq_Suc)
  then show ?thesis
    by (auto simp: double_pattern_count_def pair_hit_def py_simps)
qed

text \<open>
  C13: The detector equals its structural reference: the pattern of the 2x2
  repetition when the history has six results and the last six hold at least
  two equal non-tie pairs at the offsets (0,1), (2,3), (4,5), followed by the
  pattern of the alternation when there are six non-tie results and the first
  six of the last eight change at least four times.
\<close>

theorem analyze_micro_patterns_eq:
  "analyze_micro_patterns results =
     (if 6 \<le> length results \<and> 2 \<le> double_pairs (last_n 6 results)
      then [micro_double_dict (double_pairs (last_n 6 results))] else [])
     @ (if 6 \<le> length (non_empate results)
           \<and> 4 \<le> adjacent_changes (take 6 (last_n 8 (non_empate results)))
        then [micro_alternation_dict
                (adjacent_changes (take 6 (last_n 8 (non_empate results))))]
        else [])"
proof (cases "length results < 6")
  case True
  then have "length (non_empate results) < 6"
    using length_non_empate_le [of results] by simp
  with True show ?thesis by (simp add: analyze_micro_patterns_short)
next
  case False
  then have "double_pattern_count (last_n 6 results) = double_pairs (last_n 6 results)"
    by (intro double_pattern_count_double_pairs) simp
  moreover have "micro_alternations xs = adjacent_changes (take 6 xs)" for xs :: history
    by (simp only: micro_alternations_index changes_by_index)
  ultimately show ?thesis
    using False by (simp add: analyze_micro_patterns_branches)
qed

section \<open>Witnesses\<close>

theorem analyze_micro_patterns_eq_witness:
  "last_n 6 spec_history = [C, V, V, C, V, V]
   \<and> double_pairs (last_n 6 spec_history) = 1
   \<and> adjacent_changes (take 6 (last_n 8 (non_empate spec_history))) = 3
   \<and> analyze_micro_patterns spec_history = []"
  using analyze_micro_patterns_eq [of spec_history]
  by (simp add: spec_history_def last_n_def pair_hit_def)

end
