(* ===== verification/Hidden_Cycles.thy ===== *)
theory Hidden_Cycles
  imports Data_Model
begin

text \<open>
  \<^verbatim>\<open>CasinoAnalyzer.detect_hidden_cycles\<close> (lines 43 to 66 of \<^verbatim>\<open>src/Hacker.py\<close>).

  \<open>cycles_of\<close> is the list of sliding windows of one length (the joined
  strings of the source are the windows themselves, since every element is one
  character), \<open>repeated_cycles\<close> the items of the counter that occur at least
  twice, \<open>cycle_patterns\<close> the body of the loop over the cycle sizes and
  \<open>hidden_cycle_dict\<close> its dictionary literal.

  The specification of one loop body is \<open>most_repeated\<close>: the reported window
  occurs in the sequence, the reported count is its number of occurrences, is
  at least two, and no window of that length occurs more often. The lemmas show
  that the counter and the key-maximum implement it (every emitted pattern
  satisfies it, and every repeated window is covered by an emitted pattern),
  that the detector is silent below twelve non-tie results, and, by the
  pigeonhole principle, that it is never silent from twelve on. On a history
  of equal results the output is given in closed form; its predictability
  grows with the length and leaves the range [0, 100].
\<close>

section \<open>Definitions\<close>

definition cycles_of :: "nat \<Rightarrow> history \<Rightarrow> history list" where
  "cycles_of cycle_size ne =
     map (\<lambda>i. slice i (i + cycle_size) ne) [0..<length ne + 1 - cycle_size]"

definition hidden_cycle_dict :: "nat \<Rightarrow> history \<Rightarrow> nat \<Rightarrow> pattern" where
  "hidden_cycle_dict cycle_size most_repeated n =
     \<lparr>ptype = hidden_cycle,
      strength = min (of_nat n / 3) 1,
      risk = (if n \<ge> 3 then high else medium),
      description = Ciclo_oculto_detectado most_repeated n,
      manipulation = (if n \<ge> 3 then Ciclo_programado else Possivel_ciclo_induzido),
      predictability = 70 + of_nat n * 5,
      extra = cycle_extra cycle_size most_repeated n\<rparr>"

definition repeated_cycles :: "history counter \<Rightarrow> history counter" where
  "repeated_cycles cycle_counts = filter (\<lambda>(cycle, n). n \<ge> 2) cycle_counts"

definition cycle_patterns :: "history \<Rightarrow> nat \<Rightarrow> pattern list" where
  "cycle_patterns ne cycle_size =
     (let cycle_counts = Counter (cycles_of cycle_size ne);
          repeated = repeated_cycles cycle_counts
      in case py_max snd repeated of
           None \<Rightarrow> []
         | Some (most_repeated, n) \<Rightarrow> [hidden_cycle_dict cycle_size most_repeated n])"

definition detect_hidden_cycles :: "history \<Rightarrow> pattern list" where
  "detect_hidden_cycles results =
     (let ne = non_empate results
      in if length ne < 12 then []
         else concat (map (cycle_patterns ne) (py_range 3 7 1)))"

text \<open>The specification of one cycle size.\<close>

definition most_repeated :: "'a list \<Rightarrow> 'a \<Rightarrow> nat \<Rightarrow> bool" where
  "most_repeated ws c n \<longleftrightarrow>
     c \<in> set ws \<and> n = count_list ws c \<and> 2 \<le> n \<and> list_all (\<lambda>c'. count_list ws c' \<le> n) ws"

lemmas [pattern_dicts] = hidden_cycle_dict_def

section \<open>Windows\<close>

lemma length_cycles_of [simp]: "length (cycles_of L ne) = length ne + 1 - L"
  by (simp add: cycles_of_def)

lemma cycles_of_window:
  assumes "c \<in> set (cycles_of L ne)"
  shows "length c = L \<and> set c \<subseteq> set ne"
proof -
  from assms obtain i where i: "i < length ne + 1 - L" and c: "c = slice i (i + L) ne"
    by (auto simp: cycles_of_def)
  from i have "i + L \<le> length ne" by simp
  then have "length c = L" unfolding c by (rule slice_window)
  moreover have "set c \<subseteq> set ne" unfolding c by (rule set_slice)
  ultimately show ?thesis ..
qed

lemma finite_binary_windows:
  "finite {xs. set xs \<subseteq> {C, V} \<and> length xs = L}"
  by (rule finite_lists_length_eq) simp

lemma card_binary_windows:
  "card {xs. set xs \<subseteq> {C, V} \<and> length xs = L} = 2 ^ L"
  by (simp add: card_lists_length_eq numeral_2_eq_2)

text \<open>
  Pigeonhole: a two-letter sequence with more windows of length \<open>L\<close> than there
  are words of that length repeats one of them.
\<close>

lemma repeated_window_exists:
  assumes "set ne \<subseteq> {C, V}" and "2 ^ L < length ne + 1 - L"
  shows "\<exists>c \<in> set (cycles_of L ne). 2 \<le> count_list (cycles_of L ne) c"
proof (rule pigeonhole_list)
  show "finite {xs. set xs \<subseteq> {C, V} \<and> length xs = L}"
    by (rule finite_binary_windows)
  show "set (cycles_of L ne) \<subseteq> {xs. set xs \<subseteq> {C, V} \<and> length xs = L}"
    using cycles_of_window assms(1) by blast
  show "card {xs. set xs \<subseteq> {C, V} \<and> length xs = L} < length (cycles_of L ne)"
    using assms(2) by (simp add: card_binary_windows)
qed

section \<open>One cycle size\<close>

lemma repeated_cycles_iff:
  "(c, n) \<in> set (repeated_cycles (Counter ws)) \<longleftrightarrow>
     c \<in> set ws \<and> n = count_list ws c \<and> 2 \<le> n"
  by (auto simp: repeated_cycles_def Counter_iff)

lemma py_max_repeated:
  assumes "py_max snd (repeated_cycles (Counter ws)) = Some (c, n)"
  shows "most_repeated ws c n"
proof -
  from assms have "(c, n) \<in> set (repeated_cycles (Counter ws))"
    by (rule py_max_in)
  then have cn: "c \<in> set ws" "n = count_list ws c" "2 \<le> n"
    by (simp_all add: repeated_cycles_iff)
  have "count_list ws c' \<le> n" for c'
  proof (cases "c' \<in> set ws \<and> 2 \<le> count_list ws c'")
    case True
    then have "(c', count_list ws c') \<in> set (repeated_cycles (Counter ws))"
      by (simp add: repeated_cycles_iff)
    with assms have "snd (c', count_list ws c') \<le> snd (c, n)"
      by (rule py_max_ge)
    then show ?thesis by simp
  next
    case False
    then have "count_list ws c' < 2"
      by (cases "c' \<in> set ws") (auto simp: not_le)
    with cn(3) show ?thesis by simp
  qed
  with cn show ?thesis
    by (simp add: most_repeated_def list_all_iff)
qed

text \<open>
  For one cycle size the loop body either emits nothing, and then no window
  of that length occurs twice, or emits exactly one pattern whose window and
  count satisfy \<open>most_repeated\<close>: the counter and the key-maximum implement the
  specification of the most repeated window.
\<close>

lemma cycle_patterns_cases:
  "cycle_patterns ne L = [] \<and> (\<forall>c. count_list (cycles_of L ne) c < 2)
   \<or> (\<exists>c n. cycle_patterns ne L = [hidden_cycle_dict L c n]
        \<and> most_repeated (cycles_of L ne) c n)"
proof (cases "py_max snd (repeated_cycles (Counter (cycles_of L ne)))")
  case None
  then have "repeated_cycles (Counter (cycles_of L ne)) = []" by simp
  then have "\<not> 2 \<le> count_list (cycles_of L ne) c" for c
    using repeated_cycles_iff [of c "count_list (cycles_of L ne) c" "cycles_of L ne"]
    by (cases "c \<in> set (cycles_of L ne)") auto
  moreover from None have "cycle_patterns ne L = []"
    by (simp add: cycle_patterns_def del: py_max_None)
  ultimately show ?thesis
    by (simp add: not_le)
next
  case (Some m)
  obtain c n where m: "m = (c, n)" by (cases m)
  with Some have "most_repeated (cycles_of L ne) c n"
    by (simp add: py_max_repeated)
  moreover from Some m have "cycle_patterns ne L = [hidden_cycle_dict L c n]"
    by (simp add: cycle_patterns_def)
  ultimately show ?thesis by blast
qed

lemma cycle_patterns_repeat:
  assumes "c \<in> set (cycles_of L ne)" and "2 \<le> count_list (cycles_of L ne) c"
  shows "\<exists>c' n. cycle_patterns ne L = [hidden_cycle_dict L c' n]
           \<and> most_repeated (cycles_of L ne) c' n"
proof -
  from assms(2) have "\<not> (\<forall>c. count_list (cycles_of L ne) c < 2)"
    by (auto simp: not_less)
  with cycle_patterns_cases [of ne L] show ?thesis by blast
qed

lemma length_cycle_patterns: "length (cycle_patterns ne L) \<le> 1"
  using cycle_patterns_cases [of ne L] by auto

lemma wf_hidden_cycle_dict: "wf_pattern (hidden_cycle_dict L c n)"
  by (simp add: wf_pattern_def hidden_cycle_dict_def)

lemma cycle_patterns_wf: "list_all wf_pattern (cycle_patterns ne L)"
  using cycle_patterns_cases [of ne L] by (auto simp: wf_hidden_cycle_dict)

section \<open>The detector\<close>

lemma detect_hidden_cycles_short:
  "length (non_empate results) < 12 \<Longrightarrow> detect_hidden_cycles results = []"
  by (simp add: detect_hidden_cycles_def)

lemma detect_hidden_cycles_long:
  "12 \<le> length (non_empate results) \<Longrightarrow>
     detect_hidden_cycles results =
       cycle_patterns (non_empate results) 3 @ cycle_patterns (non_empate results) 4
       @ cycle_patterns (non_empate results) 5 @ cycle_patterns (non_empate results) 6"
  by (simp add: detect_hidden_cycles_def py_simps Let_def)

lemma cycle_patterns_mem:
  assumes "p \<in> set (cycle_patterns ne L)"
  shows "\<exists>c n. p = hidden_cycle_dict L c n \<and> most_repeated (cycles_of L ne) c n"
  using assms cycle_patterns_cases [of ne L] by fastforce

lemma detect_hidden_cycles_mem:
  assumes "p \<in> set (detect_hidden_cycles results)"
  shows "\<exists>L. 3 \<le> L \<and> L \<le> 6 \<and> p \<in> set (cycle_patterns (non_empate results) L)"
proof -
  from assms have "12 \<le> length (non_empate results)"
    by (cases "length (non_empate results) < 12") (simp_all add: detect_hidden_cycles_short)
  with assms have "p \<in> set (cycle_patterns (non_empate results) 3)
      \<or> p \<in> set (cycle_patterns (non_empate results) 4)
      \<or> p \<in> set (cycle_patterns (non_empate results) 5)
      \<or> p \<in> set (cycle_patterns (non_empate results) 6)"
    by (simp add: detect_hidden_cycles_long)
  then consider "p \<in> set (cycle_patterns (non_empate results) 3)"
    | "p \<in> set (cycle_patterns (non_empate results) 4)"
    | "p \<in> set (cycle_patterns (non_empate results) 5)"
    | "p \<in> set (cycle_patterns (non_empate results) 6)"
    by blast
  then show ?thesis
    by cases (rule exI [of _ 3], simp, rule exI [of _ 4], simp, rule exI [of _ 5], simp,
      rule exI [of _ 6], simp)
qed

text \<open>
  C4: Every emitted pattern is the dictionary of a cycle size between 3 and 6
  whose window is a most repeated window of that size in the non-tie sequence,
  with its number of occurrences.
\<close>

theorem detect_hidden_cycles_sound:
  assumes "p \<in> set (detect_hidden_cycles results)"
  shows "\<exists>L c n. 3 \<le> L \<and> L \<le> 6 \<and> p = hidden_cycle_dict L c n
           \<and> most_repeated (cycles_of L (non_empate results)) c n"
proof -
  from assms obtain L
    where "3 \<le> L" "L \<le> 6" "p \<in> set (cycle_patterns (non_empate results) L)"
    by (auto simp: detect_hidden_cycles_def Let_def py_range_step1 simp del: upt_rec_numeral
        split: if_splits)
  then show ?thesis
    using cycle_patterns_mem by blast
qed

lemma detect_hidden_cycles_ptype:
  assumes "p \<in> set (detect_hidden_cycles results)"
  shows "ptype p = hidden_cycle \<and> 2 \<le> get_repetitions p \<and> 80 \<le> predictability p"
proof -
  from detect_hidden_cycles_mem [OF assms] cycle_patterns_mem obtain L c n
    where p: "p = hidden_cycle_dict L c n" and "2 \<le> n"
    by (fastforce simp: most_repeated_def)
  then have "rat_of_nat 2 \<le> rat_of_nat n"
    by (simp only: of_nat_le_iff)
  then have "(80::rat) \<le> 70 + of_nat n * 5"
    by simp
  with p \<open>2 \<le> n\<close> show ?thesis
    by (simp add: hidden_cycle_dict_def get_repetitions_def)
qed

text \<open>
  Every pattern the cycle detector emits is well-formed: it carries the keys
  of a hidden cycle and its strength is in [0, 1].
\<close>

lemma detect_hidden_cycles_wf: "list_all wf_pattern (detect_hidden_cycles results)"
  by (cases "length (non_empate results) < 12")
    (simp_all add: detect_hidden_cycles_short detect_hidden_cycles_long cycle_patterns_wf)

lemma length_detect_hidden_cycles: "length (detect_hidden_cycles results) \<le> 4"
proof (cases "length (non_empate results) < 12")
  case True
  then show ?thesis by (simp add: detect_hidden_cycles_short)
next
  case False
  then show ?thesis
    using length_cycle_patterns [of "non_empate results" 3]
      length_cycle_patterns [of "non_empate results" 4]
      length_cycle_patterns [of "non_empate results" 5]
      length_cycle_patterns [of "non_empate results" 6]
    by (simp add: detect_hidden_cycles_long)
qed

lemma cycle_patterns_pigeonhole:
  assumes "set ne \<subseteq> {C, V}" and "2 ^ L < length ne + 1 - L"
  shows "\<exists>c n. cycle_patterns ne L = [hidden_cycle_dict L c n]
           \<and> most_repeated (cycles_of L ne) c n"
proof -
  from assms obtain c
    where "c \<in> set (cycles_of L ne)" "2 \<le> count_list (cycles_of L ne) c"
    using repeated_window_exists by blast
  then show ?thesis by (rule cycle_patterns_repeat)
qed

lemma cycle_patterns_twelve:
  assumes "12 \<le> length (non_empate results)"
  shows "\<exists>c n. cycle_patterns (non_empate results) 3 = [hidden_cycle_dict 3 c n]
           \<and> most_repeated (cycles_of 3 (non_empate results)) c n"
  using assms by (intro cycle_patterns_pigeonhole set_non_empate) simp

lemma detect_hidden_cycles_nonempty:
  "12 \<le> length (non_empate results) \<Longrightarrow> detect_hidden_cycles results \<noteq> []"
  using cycle_patterns_twelve [of results] by (auto simp: detect_hidden_cycles_long)

text \<open>
  C5: From twelve non-tie results on the detector always emits a pattern for
  cycle size 3 with at least two repetitions, and emits it first: there are at
  least ten windows of length 3 and only eight words of length 3 over two
  letters.
\<close>

theorem detect_hidden_cycles_fires:
  assumes "12 \<le> length (non_empate results)"
  shows "\<exists>c n ps. 2 \<le> n \<and> detect_hidden_cycles results = hidden_cycle_dict 3 c n # ps
     \<and> most_repeated (cycles_of 3 (non_empate results)) c n"
  using cycle_patterns_twelve [OF assms] assms
  by (auto simp: detect_hidden_cycles_def Let_def py_range_step1 upt_rec most_repeated_def)

text \<open>
  C6: From twelve non-tie results on, every window of a size between 3 and 6
  that occurs at least twice is covered: the detector emits a pattern of that
  size whose window is a most repeated one and occurs at least as often.
\<close>

theorem detect_hidden_cycles_complete:
  assumes "12 \<le> length (non_empate results)" and "3 \<le> L" and "L \<le> 6"
    and "2 \<le> count_list (cycles_of L (non_empate results)) c"
  shows "\<exists>c' n. hidden_cycle_dict L c' n \<in> set (detect_hidden_cycles results)
     \<and> most_repeated (cycles_of L (non_empate results)) c' n
     \<and> count_list (cycles_of L (non_empate results)) c \<le> n"
proof -
  let ?ws = "cycles_of L (non_empate results)"
  from assms(4) have c: "c \<in> set ?ws"
    by (cases "c \<in> set ?ws") (simp_all add: count_list_0_iff)
  with assms(4) obtain c' n
    where cp: "cycle_patterns (non_empate results) L = [hidden_cycle_dict L c' n]"
      and mr: "most_repeated ?ws c' n"
    using cycle_patterns_repeat by blast
  from assms(2,3) have "L \<in> set (py_range 3 7 1)"
    by (simp add: py_range_step1 del: upt_rec_numeral)
  with assms(1) cp have "hidden_cycle_dict L c' n \<in> set (detect_hidden_cycles results)"
    by (auto simp: detect_hidden_cycles_def Let_def intro!: bexI [of _ L])
  moreover from mr c have "count_list ?ws c \<le> n"
    by (auto simp: most_repeated_def list_all_iff)
  ultimately show ?thesis using mr by blast
qed

lemma predictability_hidden_cycle:
  "predictability (hidden_cycle_dict L c n) = 70 + 5 * of_nat n"
  by (simp add: hidden_cycle_dict_def)

lemma cycles_of_replicate:
  "L \<le> n \<Longrightarrow> cycles_of L (replicate n x) = replicate (n + 1 - L) (replicate L x)"
  by (auto simp: cycles_of_def slice_def list_eq_iff_nth_eq min_def)

lemma cycle_patterns_replicate:
  assumes "L < n"
  shows "cycle_patterns (replicate n x) L = [hidden_cycle_dict L (replicate L x) (n + 1 - L)]"
proof -
  from assms have n: "n + 1 - L = Suc (n - L)" by simp
  from assms have "cycles_of L (replicate n x) = replicate (Suc (n - L)) (replicate L x)"
    by (simp only: cycles_of_replicate n)
  then have "Counter (cycles_of L (replicate n x)) = [(replicate L x, Suc (n - L))]"
    by (simp only: Counter_replicate)
  moreover from assms have "Suc n - L = Suc (n - L)" "Suc 0 \<le> n - L"
    by simp_all
  ultimately show ?thesis
    by (simp add: cycle_patterns_def repeated_cycles_def py_max_def)
qed

lemma detect_hidden_cycles_constant:
  assumes "12 \<le> n" and "x \<noteq> E"
  shows "detect_hidden_cycles (replicate n x) =
     [hidden_cycle_dict 3 [x, x, x] (n - 2), hidden_cycle_dict 4 [x, x, x, x] (n - 3),
      hidden_cycle_dict 5 [x, x, x, x, x] (n - 4),
      hidden_cycle_dict 6 [x, x, x, x, x, x] (n - 5)]"
proof -
  from assms have "detect_hidden_cycles (replicate n x) =
      cycle_patterns (replicate n x) 3 @ cycle_patterns (replicate n x) 4
      @ cycle_patterns (replicate n x) 5 @ cycle_patterns (replicate n x) 6"
    by (simp add: detect_hidden_cycles_long non_empate_replicate)
  with assms(1) show ?thesis
    by (simp add: cycle_patterns_replicate eval_nat_numeral)
qed

lemma detect_hidden_cycles_replicate:
  "hidden_cycle_dict 3 [C, C, C] 18 \<in> set (detect_hidden_cycles (replicate 20 C))"
proof -
  have "cycle_patterns (replicate 20 C) 3 = [hidden_cycle_dict 3 (replicate 3 C) (20 + 1 - 3)]"
    by (rule cycle_patterns_replicate) simp
  then have "cycle_patterns (replicate 20 C) 3 = [hidden_cycle_dict 3 [C, C, C] 18]"
    by (simp add: numeral_3_eq_3)
  then show ?thesis
    by (simp add: detect_hidden_cycles_def Let_def py_range_step1 upt_rec)
qed

text \<open>
  C36: The predictability of a hidden cycle is 70 + 5 * repetitions with no upper
  clamp: on every history of n >= 12 equal player results the detector emits a
  pattern of predictability 60 + 5 * n, which lies above 100, outside the
  range [0, 100].
\<close>

theorem hidden_cycle_predictability_exceeds:
  assumes "12 \<le> n" and "x \<noteq> E"
  shows "\<exists>p \<in> set (detect_hidden_cycles (replicate n x)).
     predictability p = 60 + 5 * of_nat n \<and> 100 < predictability p"
proof (intro bexI [of _ "hidden_cycle_dict 3 [x, x, x] (n - 2)"] conjI)
  from assms(1) have "rat_of_nat (n - 2) = of_nat n - 2"
    by (simp add: of_nat_diff)
  then show eq: "predictability (hidden_cycle_dict 3 [x, x, x] (n - 2)) = 60 + 5 * of_nat n"
    by (simp add: predictability_hidden_cycle)
  from assms(1) have "rat_of_nat 12 \<le> of_nat n"
    by (simp only: of_nat_le_iff)
  then show "100 < predictability (hidden_cycle_dict 3 [x, x, x] (n - 2))"
    unfolding eq by simp
  from assms show "hidden_cycle_dict 3 [x, x, x] (n - 2) \<in> set (detect_hidden_cycles (replicate n x))"
    by (simp add: detect_hidden_cycles_constant)
qed

section \<open>Witnesses\<close>

theorem detect_hidden_cycles_sound_witness:
  "hidden_cycle_dict 3 [C, C, C] 18 \<in> set (detect_hidden_cycles (replicate 20 C))
   \<and> (\<exists>L c n. 3 \<le> L \<and> L \<le> 6 \<and> hidden_cycle_dict 3 [C, C, C] 18 = hidden_cycle_dict L c n
         \<and> most_repeated (cycles_of L (non_empate (replicate 20 C))) c n)"
  using detect_hidden_cycles_sound [OF detect_hidden_cycles_replicate]
    detect_hidden_cycles_replicate by blast

theorem detect_hidden_cycles_complete_witness:
  "12 \<le> length (non_empate (replicate 12 V)) \<and> (3::nat) \<le> 3 \<and> (3::nat) \<le> 6
   \<and> 2 \<le> count_list (cycles_of 3 (non_empate (replicate 12 V))) [V, V, V]
   \<and> (\<exists>c' n. hidden_cycle_dict 3 c' n \<in> set (detect_hidden_cycles (replicate 12 V))
         \<and> count_list (cycles_of 3 (non_empate (replicate 12 V))) [V, V, V] \<le> n)"
proof -
  have ws: "cycles_of 3 (replicate 12 V) = replicate 10 [V, V, V]"
    using cycles_of_replicate [of 3 12 V] by (simp add: numeral_3_eq_3)
  then have "2 \<le> count_list (cycles_of 3 (non_empate (replicate 12 V))) [V, V, V]"
    by simp
  with detect_hidden_cycles_complete [of "replicate 12 V" 3 "[V, V, V]"] show ?thesis
    by auto
qed

theorem detect_hidden_cycles_fires_witness:
  "12 \<le> length (non_empate (replicate 12 V))
   \<and> (\<exists>c n ps. 2 \<le> n
         \<and> detect_hidden_cycles (replicate 12 V) = hidden_cycle_dict 3 c n # ps
         \<and> most_repeated (cycles_of 3 (non_empate (replicate 12 V))) c n)"
  using detect_hidden_cycles_fires [of "replicate 12 V"] by simp

theorem hidden_cycle_predictability_exceeds_witness:
  "(12::nat) \<le> 20 \<and> C \<noteq> E
   \<and> (\<exists>p \<in> set (detect_hidden_cycles (replicate 20 C)).
        predictability p = 160 \<and> 100 < predictability p)"
  using hidden_cycle_predictability_exceeds [of 20 C] by simp

end
