(* ===== verification/Compensation.thy ===== *)
theory Compensation
  imports Data_Model
begin

text \<open>
  \<^verbatim>\<open>CasinoAnalyzer.analyze_compensation_patterns\<close> (lines 68 to 110 of
  \<^verbatim>\<open>src/Hacker.py\<close>).

  \<open>window_patterns\<close> is the body of the loop over the window sizes 12, 15 and
  18, with its guard \<^verbatim>\<open>n >= window_size\<close>; \<open>artificial_balance_dict\<close> and
  \<open>compensation_dict\<close> are the two dictionary literals. The imbalance
  \<^verbatim>\<open>abs(c_count - v_count)\<close> is a natural number and the balance ratio an exact
  rational.

  The lemmas show that a window emits at most one pattern, that the ratio lies
  in [0, 1] (so every emitted pattern is well-formed), that the favoured colour
  of a pending compensation is the strict minority of its window, and
  characterise what the detector emits on every history: an artificial balance
  for a window of 15 or 18 whose counts differ by at most one, a pending
  compensation for a window whose imbalance exceeds two fifths of its size.
\<close>

section \<open>Definitions\<close>

definition artificial_balance_dict :: "nat \<Rightarrow> nat \<Rightarrow> nat \<Rightarrow> rat \<Rightarrow> pattern" where
  "artificial_balance_dict window_size c_count v_count balance_ratio =
     \<lparr>ptype = artificial_balance,
      strength = 1 - balance_ratio,
      risk = high,
      description = Equilibrio_artificial window_size,
      manipulation = Forcando_distribuicao,
      predictability = 85,
      extra = balance_extra window_size c_count v_count\<rparr>"

definition compensation_dict :: "nat \<Rightarrow> nat \<Rightarrow> nat \<Rightarrow> nat \<Rightarrow> rat \<Rightarrow> pattern" where
  "compensation_dict window_size c_count v_count imbalance balance_ratio =
     (let underrepresented = (if c_count < v_count then C else V)
      in \<lparr>ptype = compensation_pending,
          strength = balance_ratio,
          risk = medium,
          description = Compensacao_pendente c_count v_count,
          manipulation = Deve_favorecer underrepresented,
          predictability = 60 + balance_ratio * 20,
          extra = compensation_extra window_size imbalance underrepresented\<rparr>)"

definition window_patterns :: "history \<Rightarrow> nat \<Rightarrow> nat \<Rightarrow> pattern list" where
  "window_patterns ne n window_size =
     (if n \<ge> window_size then
        let window = last_n window_size ne;
            c_count = count_list window C;
            v_count = count_list window V;
            imbalance = nat \<bar>int c_count - int v_count\<bar>;
            balance_ratio = of_nat imbalance / of_nat window_size
        in (if balance_ratio < 1 / 10 \<and> window_size \<ge> 15
            then [artificial_balance_dict window_size c_count v_count balance_ratio] else [])
         @ (if balance_ratio > 4 / 10
            then [compensation_dict window_size c_count v_count imbalance balance_ratio] else [])
      else [])"

definition analyze_compensation_patterns :: "history \<Rightarrow> pattern list" where
  "analyze_compensation_patterns results =
     (let ne = non_empate results; n = length ne
      in if n < 20 then []
         else concat (map (window_patterns ne n) [12, 15, 18]))"

text \<open>The quantities of one window, named for the statements below.\<close>

definition imbalance_of :: "history \<Rightarrow> nat" where
  "imbalance_of window = nat \<bar>int (count_list window C) - int (count_list window V)\<bar>"

definition balance_ratio_of :: "history \<Rightarrow> rat" where
  "balance_ratio_of window = of_nat (imbalance_of window) / of_nat (length window)"

definition minority :: "history \<Rightarrow> outcome" where
  "minority window = (if count_list window C < count_list window V then C else V)"

definition alternating20 :: history where
  "alternating20 = [C, V, C, V, C, V, C, V, C, V, C, V, C, V, C, V, C, V, C, V]"

lemmas [pattern_dicts] = artificial_balance_dict_def compensation_dict_def

section \<open>One window\<close>

lemma imbalance_of_le: "imbalance_of window \<le> length window"
proof -
  have "count_list window C \<le> length window" "count_list window V \<le> length window"
    by (rule count_le_length)+
  then show ?thesis by (simp add: imbalance_of_def)
qed

lemma balance_ratio_of_range: "0 \<le> balance_ratio_of window \<and> balance_ratio_of window \<le> 1"
proof (cases "length window = 0")
  case True
  then show ?thesis by (simp add: balance_ratio_of_def)
next
  case False
  with imbalance_of_le [of window] show ?thesis
    by (simp add: balance_ratio_of_def divide_le_eq)
qed

lemma window_patterns_eq:
  assumes "W \<le> n" and "W \<le> length ne"
  shows "window_patterns ne n W =
    (if balance_ratio_of (last_n W ne) < 1 / 10 \<and> 15 \<le> W
     then [artificial_balance_dict W (count_list (last_n W ne) C) (count_list (last_n W ne) V)
             (balance_ratio_of (last_n W ne))] else [])
    @ (if 4 / 10 < balance_ratio_of (last_n W ne)
       then [compensation_dict W (count_list (last_n W ne) C) (count_list (last_n W ne) V)
               (imbalance_of (last_n W ne)) (balance_ratio_of (last_n W ne))] else [])"
  using assms
  by (simp add: window_patterns_def Let_def balance_ratio_of_def imbalance_of_def min_def)

lemma window_patterns_skip: "n < W \<Longrightarrow> window_patterns ne n W = []"
  by (simp add: window_patterns_def)

lemma thresholds_exclusive:
  "length ((if r < 1 / 10 \<and> b then [x] else []) @ (if (r::rat) > 4 / 10 then [y] else [])) \<le> 1"
  by (cases "r < 1 / 10") auto

text \<open>
  One window emits at most one pattern: the thresholds of the artificial
  balance (ratio below 0.1) and of the pending compensation (ratio above 0.4)
  exclude each other.
\<close>

lemma length_window_patterns: "length (window_patterns ne n W) \<le> 1"
proof (cases "n \<ge> W")
  case True
  show ?thesis
    unfolding window_patterns_def Let_def if_P [OF True] by (rule thresholds_exclusive)
next
  case False
  then show ?thesis by (simp add: window_patterns_def)
qed

lemma wf_artificial_balance_dict:
  "0 \<le> r \<Longrightarrow> r \<le> 1 \<Longrightarrow> wf_pattern (artificial_balance_dict W c v r)"
  by (simp add: wf_pattern_def artificial_balance_dict_def)

lemma wf_compensation_dict:
  "0 \<le> r \<Longrightarrow> r \<le> 1 \<Longrightarrow> wf_pattern (compensation_dict W c v i r)"
  by (simp add: wf_pattern_def compensation_dict_def)

lemma window_patterns_wf:
  assumes "W \<le> length ne"
  shows "list_all wf_pattern (window_patterns ne n W)"
proof (cases "W \<le> n")
  case True
  with assms balance_ratio_of_range [of "last_n W ne"] show ?thesis
    by (simp add: window_patterns_eq wf_artificial_balance_dict wf_compensation_dict)
next
  case False
  then show ?thesis by (simp add: window_patterns_skip)
qed

section \<open>The detector\<close>

lemma analyze_compensation_patterns_short:
  "length (non_empate results) < 20 \<Longrightarrow> analyze_compensation_patterns results = []"
  by (simp add: analyze_compensation_patterns_def)

lemma analyze_compensation_patterns_long:
  "20 \<le> length (non_empate results) \<Longrightarrow>
     analyze_compensation_patterns results =
       window_patterns (non_empate results) (length (non_empate results)) 12
       @ window_patterns (non_empate results) (length (non_empate results)) 15
       @ window_patterns (non_empate results) (length (non_empate results)) 18"
  by (simp add: analyze_compensation_patterns_def Let_def)

text \<open>
  C30: The detector emits at most three patterns, one per window size: the
  thresholds of the artificial balance and of the pending compensation exclude
  each other.
\<close>

theorem length_analyze_compensation_patterns:
  "length (analyze_compensation_patterns results) \<le> 3"
proof (cases "length (non_empate results) < 20")
  case True
  then show ?thesis by (simp add: analyze_compensation_patterns_short)
next
  case False
  then show ?thesis
    using length_window_patterns [of "non_empate results" "length (non_empate results)" 12]
      length_window_patterns [of "non_empate results" "length (non_empate results)" 15]
      length_window_patterns [of "non_empate results" "length (non_empate results)" 18]
    by (simp add: analyze_compensation_patterns_long)
qed

text \<open>
  Every pattern the compensation detector emits is well-formed: it carries
  the keys of its type and its strength, the balance ratio or its complement,
  is in [0, 1].
\<close>

lemma analyze_compensation_patterns_wf:
  "list_all wf_pattern (analyze_compensation_patterns results)"
proof (cases "length (non_empate results) < 20")
  case True
  then show ?thesis by (simp add: analyze_compensation_patterns_short)
next
  case False
  then show ?thesis
    by (simp add: analyze_compensation_patterns_long window_patterns_wf)
qed

lemma analyze_compensation_patterns_nonempty:
  "analyze_compensation_patterns results \<noteq> [] \<Longrightarrow> 20 \<le> length (non_empate results)"
  by (cases "length (non_empate results) < 20")
    (simp_all add: analyze_compensation_patterns_short)

lemma minority_strict:
  assumes "0 < imbalance_of window"
  shows "count_list window (minority window)
           < count_list window (if minority window = C then V else C)"
  using assms by (auto simp: minority_def imbalance_of_def)

lemma analyze_compensation_patterns_ptype:
  assumes "p \<in> set (analyze_compensation_patterns results)"
  shows "ptype p = artificial_balance \<or> ptype p = compensation_pending"
proof -
  from assms have "analyze_compensation_patterns results \<noteq> []" by auto
  then have "20 \<le> length (non_empate results)"
    by (rule analyze_compensation_patterns_nonempty)
  with assms show ?thesis
    by (auto simp: analyze_compensation_patterns_long window_patterns_def Let_def pattern_dicts
        split: if_splits)
qed

text \<open>
  C12: A pending compensation comes from one of the windows 12, 15 or 18 of the
  non-tie sequence; its favoured colour is the minority of that window, its
  strength the balance ratio, which exceeds 0.4, and its predictability
  60 + 20 * strength.
\<close>

lemma compensation_pending_minority:
  assumes "p \<in> set (analyze_compensation_patterns results)"
    and "ptype p = compensation_pending"
  shows "\<exists>W. W \<in> {12, 15, 18}
     \<and> extra p = compensation_extra W (imbalance_of (last_n W (non_empate results)))
         (minority (last_n W (non_empate results)))
     \<and> strength p = balance_ratio_of (last_n W (non_empate results))
     \<and> 4 / 10 < strength p
     \<and> predictability p = 60 + 20 * strength p"
proof -
  let ?ne = "non_empate results"
  from assms(1) have "analyze_compensation_patterns results \<noteq> []" by auto
  then have long: "20 \<le> length ?ne"
    by (rule analyze_compensation_patterns_nonempty)
  with assms(1) obtain W where W: "W \<in> {12, 15, 18}"
      and p: "p \<in> set (window_patterns ?ne (length ?ne) W)"
    by (auto simp: analyze_compensation_patterns_long)
  from W long have "W \<le> length ?ne" by auto
  with p assms(2) have "4 / 10 < balance_ratio_of (last_n W ?ne)"
      and "p = compensation_dict W (count_list (last_n W ?ne) C) (count_list (last_n W ?ne) V)
               (imbalance_of (last_n W ?ne)) (balance_ratio_of (last_n W ?ne))"
    by (auto simp: window_patterns_eq artificial_balance_dict_def split: if_splits)
  then have "extra p = compensation_extra W (imbalance_of (last_n W ?ne)) (minority (last_n W ?ne))
      \<and> strength p = balance_ratio_of (last_n W ?ne) \<and> 4 / 10 < strength p
      \<and> predictability p = 60 + 20 * strength p"
    by (simp add: compensation_dict_def minority_def)
  with W show ?thesis by blast
qed

lemma balance_ratio_of_less:
  assumes "0 < length w"
  shows "balance_ratio_of w < 1 / 10 \<longleftrightarrow> 10 * imbalance_of w < length w"
proof -
  from assms have "balance_ratio_of w < 1 / 10
      \<longleftrightarrow> rat_of_nat (10 * imbalance_of w) < rat_of_nat (length w)"
    by (simp add: balance_ratio_of_def field_simps)
  then show ?thesis by (simp only: of_nat_less_iff)
qed

lemma balance_ratio_of_greater:
  assumes "0 < length w"
  shows "4 / 10 < balance_ratio_of w \<longleftrightarrow> 4 * length w < 10 * imbalance_of w"
proof -
  from assms have "4 / 10 < balance_ratio_of w
      \<longleftrightarrow> rat_of_nat (4 * length w) < rat_of_nat (10 * imbalance_of w)"
    by (simp add: balance_ratio_of_def field_simps)
  then show ?thesis by (simp only: of_nat_less_iff)
qed

lemma analyze_compensation_patterns_mem:
  "p \<in> set (analyze_compensation_patterns results) \<longleftrightarrow>
     20 \<le> length (non_empate results)
     \<and> (\<exists>W \<in> {12, 15, 18}.
          p \<in> set (window_patterns (non_empate results) (length (non_empate results)) W))"
  by (cases "length (non_empate results) < 20")
    (auto simp: analyze_compensation_patterns_short analyze_compensation_patterns_long)

lemma window_patterns_mem:
  assumes "W \<in> {12, 15, 18}" and "20 \<le> length ne"
  shows "p \<in> set (window_patterns ne (length ne) W) \<longleftrightarrow>
     p = artificial_balance_dict W (count_list (last_n W ne) C) (count_list (last_n W ne) V)
           (balance_ratio_of (last_n W ne))
       \<and> 15 \<le> W \<and> imbalance_of (last_n W ne) \<le> 1
     \<or> p = compensation_dict W (count_list (last_n W ne) C) (count_list (last_n W ne) V)
           (imbalance_of (last_n W ne)) (balance_ratio_of (last_n W ne))
       \<and> 4 * W < 10 * imbalance_of (last_n W ne)"
proof -
  from assms have W: "W \<le> length ne" "length (last_n W ne) = W" "0 < W" by auto
  then have "balance_ratio_of (last_n W ne) < 1 / 10 \<longleftrightarrow> 10 * imbalance_of (last_n W ne) < W"
      "4 / 10 < balance_ratio_of (last_n W ne) \<longleftrightarrow> 4 * W < 10 * imbalance_of (last_n W ne)"
    using balance_ratio_of_less [of "last_n W ne"] balance_ratio_of_greater [of "last_n W ne"]
    by simp_all
  moreover from assms(1) have "15 \<le> W \<Longrightarrow>
      10 * imbalance_of (last_n W ne) < W \<longleftrightarrow> imbalance_of (last_n W ne) \<le> 1"
    by auto
  ultimately show ?thesis
    using W(1) by (auto simp: window_patterns_eq)
qed

text \<open>
  C11: The detector emits exactly, for each of the windows 12, 15 and 18 of a
  non-tie sequence of at least twenty results, the artificial balance when the
  window has at least 15 results and its two counts differ by at most one, and
  the pending compensation when ten times the difference of the counts exceeds
  four times the window size.
\<close>

theorem analyze_compensation_patterns_iff:
  "p \<in> set (analyze_compensation_patterns results) \<longleftrightarrow>
     20 \<le> length (non_empate results)
     \<and> (\<exists>W \<in> {12, 15, 18}.
          p = artificial_balance_dict W
                (count_list (last_n W (non_empate results)) C)
                (count_list (last_n W (non_empate results)) V)
                (balance_ratio_of (last_n W (non_empate results)))
            \<and> 15 \<le> W \<and> imbalance_of (last_n W (non_empate results)) \<le> 1
          \<or> p = compensation_dict W
                (count_list (last_n W (non_empate results)) C)
                (count_list (last_n W (non_empate results)) V)
                (imbalance_of (last_n W (non_empate results)))
                (balance_ratio_of (last_n W (non_empate results)))
            \<and> 4 * W < 10 * imbalance_of (last_n W (non_empate results)))"
  unfolding analyze_compensation_patterns_mem
  using window_patterns_mem [of _ "non_empate results" p] by blast

lemma analyze_compensation_patterns_replicate:
  "analyze_compensation_patterns (replicate 20 C) =
     [compensation_dict 12 12 0 12 1, compensation_dict 15 15 0 15 1,
      compensation_dict 18 18 0 18 1]"
  by (simp add: analyze_compensation_patterns_def window_patterns_def Let_def
      count_list_replicate)

section \<open>Witnesses\<close>

theorem analyze_compensation_patterns_iff_witness:
  "artificial_balance_dict 15 7 8 (1 / 15) \<in> set (analyze_compensation_patterns alternating20)"
proof -
  let ?w = "last_n 15 (non_empate alternating20)"
  have w: "?w = [V, C, V, C, V, C, V, C, V, C, V, C, V, C, V]"
    by (simp add: alternating20_def last_n_def)
  have counts: "count_list ?w C = 7" "count_list ?w V = 8"
    unfolding w by simp_all
  have im: "imbalance_of ?w = 1" and br: "balance_ratio_of ?w = 1 / 15"
    by (simp_all add: imbalance_of_def balance_ratio_of_def w)
  have "artificial_balance_dict 15 7 8 (1 / 15)
      = artificial_balance_dict 15 (count_list ?w C) (count_list ?w V) (balance_ratio_of ?w)"
    unfolding counts br by (rule refl)
  moreover have "imbalance_of ?w \<le> 1"
    unfolding im by simp
  moreover have "20 \<le> length (non_empate alternating20)"
    by (simp add: alternating20_def)
  ultimately show ?thesis
    unfolding analyze_compensation_patterns_iff by blast
qed

theorem compensation_pending_minority_witness:
  "compensation_dict 12 12 0 12 1 \<in> set (analyze_compensation_patterns (replicate 20 C))
   \<and> ptype (compensation_dict 12 12 0 12 1) = compensation_pending
   \<and> (\<exists>W. W \<in> {12, 15, 18}
     \<and> extra (compensation_dict 12 12 0 12 1)
         = compensation_extra W (imbalance_of (last_n W (non_empate (replicate 20 C))))
             (minority (last_n W (non_empate (replicate 20 C))))
     \<and> strength (compensation_dict 12 12 0 12 1)
         = balance_ratio_of (last_n W (non_empate (replicate 20 C)))
     \<and> 4 / 10 < strength (compensation_dict 12 12 0 12 1)
     \<and> predictability (compensation_dict 12 12 0 12 1)
         = 60 + 20 * strength (compensation_dict 12 12 0 12 1))"
proof -
  have mem: "compensation_dict 12 12 0 12 1 \<in> set (analyze_compensation_patterns (replicate 20 C))"
    by (simp add: analyze_compensation_patterns_replicate)
  have ty: "ptype (compensation_dict 12 12 0 12 1) = compensation_pending"
    by (simp add: compensation_dict_def)
  from compensation_pending_minority [OF mem ty] mem ty show ?thesis by blast
qed

end
