(* ===== verification/Strategic_Ties.thy ===== *)
theory Strategic_Ties
  imports Data_Model
begin

text \<open>
  \<^verbatim>\<open>CasinoAnalyzer.analyze_strategic_ties\<close> (lines 112 to 165 of \<^verbatim>\<open>src/Hacker.py\<close>).

  \<open>tie_positions\<close> is the enumeration of the tie indices,
  \<open>get_sequence_length\<close> the nested function with its backward loop
  (\<open>sequence_scan\<close> walks \<^verbatim>\<open>seq[len-2], ..., seq[0]\<close> and stops at the first
  other colour, as the \<^verbatim>\<open>break\<close> does), \<open>tie_patterns\<close> the body of the loop over
  the tie positions with the slices \<^verbatim>\<open>before\<close> and \<^verbatim>\<open>after\<close> (named
  \<open>before_tie\<close> and \<open>after_tie\<close>), and \<open>after_sequence_dict\<close> and
  \<open>before_reversal_dict\<close> the two dictionary literals.

  The lemmas replace the loop by its reference (the length of the final run),
  resolve the slices into the elements around the tie, so that the guards on
  the slice lengths disappear, bound the reported run length, and characterise
  the emitted patterns exactly by the ties of the history.
\<close>

section \<open>Definitions\<close>

fun sequence_scan :: "'a \<Rightarrow> 'a list \<Rightarrow> nat \<Rightarrow> nat" where
  "sequence_scan color [] len = len"
| "sequence_scan color (x # rest) len =
     (if x = color then sequence_scan color rest (len + 1) else len)"

definition get_sequence_length :: "'a list \<Rightarrow> nat" where
  "get_sequence_length seq =
     (if seq = [] then 0 else sequence_scan (last seq) (rev (butlast seq)) 1)"

definition tie_positions :: "history \<Rightarrow> nat list" where
  "tie_positions results = filter (\<lambda>i. results ! i = E) [0..<length results]"

definition after_sequence_dict :: "nat \<Rightarrow> outcome \<Rightarrow> nat \<Rightarrow> pattern" where
  "after_sequence_dict tie_pos sequence_color sequence_length =
     \<lparr>ptype = strategic_tie_after_sequence,
      strength = 7 / 10,
      risk = high,
      description = Empate_apos_sequencia sequence_length sequence_color,
      manipulation = Quebrar_momentum,
      predictability = 75,
      extra = after_sequence_extra tie_pos sequence_color sequence_length\<rparr>"

definition before_reversal_dict :: "nat \<Rightarrow> outcome \<Rightarrow> outcome \<Rightarrow> pattern" where
  "before_reversal_dict tie_pos from_color to_color =
     \<lparr>ptype = strategic_tie_before_reversal,
      strength = 8 / 10,
      risk = high,
      description = Empate_antes_de_reversao from_color to_color,
      manipulation = Mascarar_mudanca,
      predictability = 80,
      extra = before_reversal_extra tie_pos from_color to_color\<rparr>"

definition tie_patterns :: "history \<Rightarrow> nat \<Rightarrow> pattern list" where
  "tie_patterns results tie_pos =
     (if tie_pos \<ge> 3 then
        let before_tie = slice (max 0 (tie_pos - 3)) tie_pos results;
            after_tie = slice (tie_pos + 1) (tie_pos + 4) results
        in (if length before_tie \<ge> 2
              \<and> last before_tie = before_tie ! (length before_tie - 2)
              \<and> last before_tie \<noteq> E
            then [after_sequence_dict tie_pos (last before_tie)
                    (get_sequence_length before_tie)]
            else [])
         @ (if length after_tie \<ge> 2 \<and> length before_tie \<ge> 1
              \<and> last before_tie \<noteq> E \<and> after_tie ! 0 \<noteq> E
            then (let before_color = last before_tie; after_color = after_tie ! 0
                  in if before_color \<noteq> after_color
                     then [before_reversal_dict tie_pos before_color after_color] else [])
            else [])
      else [])"

definition analyze_strategic_ties :: "history \<Rightarrow> pattern list" where
  "analyze_strategic_ties results =
     (if length results < 8 then []
      else concat (map (tie_patterns results) (tie_positions results)))"

lemmas [pattern_dicts] = after_sequence_dict_def before_reversal_dict_def

section \<open>The run-length loop\<close>

lemma sequence_scan_takeWhile:
  "sequence_scan color xs len = len + length (takeWhile (\<lambda>x. x = color) xs)"
  by (induction xs arbitrary: len) auto

text \<open>
  C24: The backward loop of \<^verbatim>\<open>get_sequence_length\<close> computes the length of the
  final run of its argument: the number of elements, read from the end, that
  equal the last one.
\<close>

lemma get_sequence_length_run:
  "get_sequence_length seq = length (takeWhile (\<lambda>x. x = last seq) (rev seq))"
proof (cases "seq = []")
  case True
  then show ?thesis by (simp add: get_sequence_length_def)
next
  case False
  then have "seq = butlast seq @ [last seq]" by simp
  then have "rev seq = rev (butlast seq @ [last seq])" by (rule arg_cong)
  then have eq: "rev seq = last seq # rev (butlast seq)" by simp
  have "length (takeWhile (\<lambda>x. x = last seq) (rev seq))
      = length (takeWhile (\<lambda>x. x = last seq) (last seq # rev (butlast seq)))"
    by (subst eq) (rule refl)
  also have "\<dots> = Suc (length (takeWhile (\<lambda>x. x = last seq) (rev (butlast seq))))"
    by simp
  finally show ?thesis using False
    by (simp add: get_sequence_length_def sequence_scan_takeWhile)
qed

lemma get_sequence_length_le: "get_sequence_length seq \<le> length seq"
proof (cases seq rule: rev_cases)
  case Nil
  then show ?thesis by (simp add: get_sequence_length_def)
next
  case (snoc xs x)
  have "length (takeWhile (\<lambda>y. y = x) (rev xs)) \<le> length (rev xs)"
    by (rule length_takeWhile_le)
  with snoc show ?thesis
    by (simp add: get_sequence_length_def sequence_scan_takeWhile)
qed

lemma get_sequence_length_three:
  "get_sequence_length [a, b, c] = (if b = c then (if a = c then 3 else 2) else 1)"
  by (simp add: get_sequence_length_def)

section \<open>Tie positions\<close>

lemma tie_positions_iff:
  "i \<in> set (tie_positions results) \<longleftrightarrow> i < length results \<and> results ! i = E"
  by (auto simp: tie_positions_def)

lemma tie_positions_snoc:
  "tie_positions (xs @ [x]) = tie_positions xs @ (if x = E then [length xs] else [])"
proof -
  have "filter (\<lambda>i. (xs @ [x]) ! i = E) [0..<length xs]
      = filter (\<lambda>i. xs ! i = E) [0..<length xs]"
    by (rule filter_cong) (auto simp: nth_append)
  then show ?thesis
    by (simp add: tie_positions_def)
qed

lemma tie_positions_Nil [simp]: "tie_positions [] = []"
  by (simp add: tie_positions_def)

lemma length_tie_positions: "length (tie_positions results) = count_list results E"
  by (induction results rule: rev_induct) (simp_all add: tie_positions_snoc)

section \<open>One tie\<close>

lemma slice_three:
  assumes "3 \<le> p" and "p \<le> length xs"
  shows "slice (p - 3) p xs = [xs ! (p - 3), xs ! (p - 2), xs ! (p - 1)]"
proof (rule nth_equalityI)
  from assms show "length (slice (p - 3) p xs) = length [xs ! (p - 3), xs ! (p - 2), xs ! (p - 1)]"
    by simp
next
  fix i assume "i < length (slice (p - 3) p xs)"
  with assms have i: "i < 3" by simp
  with assms have "slice (p - 3) p xs ! i = xs ! (p - 3 + i)"
    by (intro nth_slice) auto
  moreover from i have "i = 0 \<or> i = 1 \<or> i = 2" by auto
  moreover from assms have "p - 3 + 1 = p - 2" "p - 3 + 2 = p - 1" by auto
  ultimately show "slice (p - 3) p xs ! i = [xs ! (p - 3), xs ! (p - 2), xs ! (p - 1)] ! i"
    by auto
qed

lemma after_slice:
  "length (slice (p + 1) (p + 4) xs) = min 3 (length xs - (p + 1))"
  "p + 1 < length xs \<Longrightarrow> slice (p + 1) (p + 4) xs ! 0 = xs ! (p + 1)"
  by (simp_all add: slice_def)

text \<open>
  For a tie at position \<open>p\<close> with three results before it, the loop body
  depends on the results at \<open>p - 3\<close>, \<open>p - 2\<close>, \<open>p - 1\<close> and \<open>p + 1\<close> only: it
  reports a sequence when the two results before the tie are equal and no tie,
  with length 3 or 2, and a reversal when at least two results follow, the
  neighbours of the tie are no ties and differ. The guards on the length of
  \<^verbatim>\<open>before\<close> are always true.
\<close>

lemma tie_patterns_eq:
  assumes "3 \<le> p" and "p < length r"
  shows "tie_patterns r p =
    (if r ! (p - 1) = r ! (p - 2) \<and> r ! (p - 1) \<noteq> E
     then [after_sequence_dict p (r ! (p - 1)) (if r ! (p - 3) = r ! (p - 1) then 3 else 2)]
     else [])
    @ (if p + 3 \<le> length r \<and> r ! (p - 1) \<noteq> E \<and> r ! (p + 1) \<noteq> E
          \<and> r ! (p - 1) \<noteq> r ! (p + 1)
       then [before_reversal_dict p (r ! (p - 1)) (r ! (p + 1))] else [])"
proof -
  from assms have before_tie: "slice (p - 3) p r = [r ! (p - 3), r ! (p - 2), r ! (p - 1)]"
    by (simp add: slice_three)
  show ?thesis
  proof (cases "p + 3 \<le> length r")
    case True
    then have "2 \<le> length (slice (p + 1) (p + 4) r)"
        and "slice (p + 1) (p + 4) r ! 0 = r ! (p + 1)"
      by (simp_all add: slice_def)
    with True assms(1) show ?thesis
      by (auto simp: tie_patterns_def Let_def before_tie get_sequence_length_three
          simp del: length_slice)
  next
    case False
    then have "\<not> 2 \<le> length (slice (p + 1) (p + 4) r)"
      by simp
    with False assms(1) show ?thesis
      by (auto simp: tie_patterns_def Let_def before_tie get_sequence_length_three
          simp del: length_slice)
  qed
qed

lemma tie_patterns_early: "p < 3 \<Longrightarrow> tie_patterns r p = []"
  by (simp add: tie_patterns_def)

lemma length_tie_patterns: "length (tie_patterns r p) \<le> 2"
  by (simp add: tie_patterns_def Let_def)

lemma wf_tie_dicts:
  "wf_pattern (after_sequence_dict p c n)" "wf_pattern (before_reversal_dict p c d)"
  by (simp_all add: wf_pattern_def after_sequence_dict_def before_reversal_dict_def)

lemma tie_patterns_wf: "list_all wf_pattern (tie_patterns r p)"
  by (simp add: tie_patterns_def Let_def wf_tie_dicts)

section \<open>The detector\<close>

lemma analyze_strategic_ties_short:
  "length results < 8 \<Longrightarrow> analyze_strategic_ties results = []"
  by (simp add: analyze_strategic_ties_def)

text \<open>
  Every pattern the tie detector emits is well-formed: it carries the keys
  of its type and a strength of 0.7 or 0.8.
\<close>

lemma analyze_strategic_ties_wf: "list_all wf_pattern (analyze_strategic_ties results)"
  by (simp add: analyze_strategic_ties_def list_all_iff tie_patterns_wf [unfolded list_all_iff])

lemma tie_patterns_index: "q \<in> set (tie_patterns results p) \<Longrightarrow> 3 \<le> p"
  by (cases "p < 3") (simp_all add: tie_patterns_early)

lemma analyze_strategic_ties_ptype:
  assumes "q \<in> set (analyze_strategic_ties results)"
  shows "startswith_strategic_tie (ptype q)"
proof -
  from assms obtain p
    where "p < length results" "q \<in> set (tie_patterns results p)"
    by (auto simp: analyze_strategic_ties_def tie_positions_iff split: if_splits)
  moreover from this have "3 \<le> p" by (simp add: tie_patterns_index)
  ultimately show ?thesis
    by (auto simp: tie_patterns_eq startswith_strategic_tie_def pattern_dicts
        split: if_splits)
qed

text \<open>
  C10: The detector emits exactly the patterns of the ties at an index of at
  least 3 in a history of at least eight results: for such a tie whose
  predecessor is no tie, the sequence pattern when the two results before the
  tie are equal, with run length 3 or 2, and the reversal pattern when two
  results follow and the successor is no tie and differs from the predecessor.
\<close>

theorem analyze_strategic_ties_iff:
  "q \<in> set (analyze_strategic_ties results) \<longleftrightarrow>
     8 \<le> length results
     \<and> (\<exists>p. 3 \<le> p \<and> p < length results \<and> results ! p = E
          \<and> results ! (p - 1) \<noteq> E
          \<and> (q = after_sequence_dict p (results ! (p - 1))
                   (if results ! (p - 3) = results ! (p - 1) then 3 else 2)
               \<and> results ! (p - 2) = results ! (p - 1)
             \<or> q = before_reversal_dict p (results ! (p - 1)) (results ! (p + 1))
               \<and> p + 3 \<le> length results \<and> results ! (p + 1) \<noteq> E
               \<and> results ! (p + 1) \<noteq> results ! (p - 1)))"
proof -
  have "q \<in> set (tie_patterns results p) \<longleftrightarrow>
      results ! (p - 1) \<noteq> E
      \<and> (q = after_sequence_dict p (results ! (p - 1))
               (if results ! (p - 3) = results ! (p - 1) then 3 else 2)
           \<and> results ! (p - 2) = results ! (p - 1)
         \<or> q = before_reversal_dict p (results ! (p - 1)) (results ! (p + 1))
           \<and> p + 3 \<le> length results \<and> results ! (p + 1) \<noteq> E
           \<and> results ! (p + 1) \<noteq> results ! (p - 1))"
    if "3 \<le> p" "p < length results" for p
    using that by (auto simp: tie_patterns_eq)
  moreover have "q \<in> set (analyze_strategic_ties results) \<longleftrightarrow>
      8 \<le> length results
      \<and> (\<exists>p. p < length results \<and> results ! p = E \<and> q \<in> set (tie_patterns results p))"
    by (auto simp: analyze_strategic_ties_def tie_positions_iff)
  ultimately show ?thesis
    using tie_patterns_index [of q results] by blast
qed

text \<open>
  C31: The detector emits at most two patterns per tie of the history.
\<close>

lemma length_analyze_strategic_ties:
  "length (analyze_strategic_ties results) \<le> 2 * count_list results E"
proof -
  have "length (concat (map (tie_patterns results) ps)) \<le> 2 * length ps" for ps
  proof (induction ps)
    case Nil
    show ?case by simp
  next
    case (Cons a ps)
    with length_tie_patterns [of results a] show ?case by simp
  qed
  from this [of "tie_positions results"] show ?thesis
    by (simp add: analyze_strategic_ties_def length_tie_positions)
qed

section \<open>Witnesses\<close>

theorem tie_patterns_eq_witness:
  "(3::nat) \<le> 4 \<and> 4 < length [C, C, C, C, E, V, V, C]
   \<and> tie_patterns [C, C, C, C, E, V, V, C] 4
       = [after_sequence_dict 4 C 3, before_reversal_dict 4 C V]"
  using tie_patterns_eq [of 4 "[C, C, C, C, E, V, V, C]"] by simp

theorem analyze_strategic_ties_iff_witness:
  "after_sequence_dict 4 C 3 \<in> set (analyze_strategic_ties [C, C, C, C, E, V, V, C])"
  by (subst analyze_strategic_ties_iff) (rule conjI, simp, rule exI [of _ 4], simp)

end
