(* ===== verification/Risk.thy ===== *)
theory Risk
  imports Data_Model
begin

text \<open>
  \<^verbatim>\<open>CasinoAnalyzer.assess_risk\<close> (lines 167 to 200 of \<^verbatim>\<open>src/Hacker.py\<close>).

  \<open>risk_step\<close> is one iteration of the loop, with the \<^verbatim>\<open>if\<close>/\<^verbatim>\<open>elif\<close> chain in
  the order of the source, over the state \<^verbatim>\<open>(risk_score, risk_factors)\<close>;
  \<open>risk_level_of\<close> is the threshold chain on the running total and
  \<open>assess_risk\<close> the whole method. A \<open>factor\<close> is one of the six fixed texts
  appended to \<^verbatim>\<open>risk_factors\<close>. The fields of the returned dictionary are
  \<open>r_level\<close>, \<open>r_score\<close> and \<open>factors\<close>.

  The specification is the table of the rules: \<open>risk_points\<close> and
  \<open>risk_factors\<close> give what one pattern contributes. The loop refines the sum
  and the concatenation over the list; from this follow the bounds of the
  score, the agreement of the level with the clamped score, monotonicity under
  more patterns, and the characterisation of the levels.
\<close>

section \<open>Definitions\<close>

datatype factor =
    Padrao_2x2_critico | Alternacao_artificial_critica | Ciclo_programado_ativo nat
  | Equilibrio_artificial_forcado | Quebra_intencional | Empate_estrategico

record risk_assessment =
  r_level :: level
  r_score :: nat
  factors :: "factor list"

definition risk_step :: "nat \<times> factor list \<Rightarrow> pattern \<Rightarrow> nat \<times> factor list" where
  "risk_step acc pattern =
     (case acc of (risk_score, risk_factors) \<Rightarrow>
        if ptype pattern = micro_double_pattern \<and> strength pattern \<ge> 8 / 10
          then (risk_score + 70, risk_factors @ [Padrao_2x2_critico])
        else if ptype pattern = micro_alternation \<and> strength pattern \<ge> 8 / 10
          then (risk_score + 65, risk_factors @ [Alternacao_artificial_critica])
        else if ptype pattern = hidden_cycle \<and> get_repetitions pattern \<ge> 3
          then (risk_score + 60,
                risk_factors @ [Ciclo_programado_ativo (get_repetitions pattern)])
        else if ptype pattern = artificial_balance
          then (risk_score + 55, risk_factors @ [Equilibrio_artificial_forcado])
        else if ptype pattern = intentional_break
          then (risk_score + 50, risk_factors @ [Quebra_intencional])
        else if startswith_strategic_tie (ptype pattern)
          then (risk_score + 40, risk_factors @ [Empate_estrategico])
        else (risk_score, risk_factors))"

definition risk_level_of :: "nat \<Rightarrow> level" where
  "risk_level_of risk_score =
     (if risk_score \<ge> 80 then critical
      else if risk_score \<ge> 55 then high
      else if risk_score \<ge> 30 then medium
      else low)"

definition assess_risk :: "pattern list \<Rightarrow> risk_assessment" where
  "assess_risk patterns =
     (case foldl risk_step (0, []) patterns of (risk_score, risk_factors) \<Rightarrow>
        \<lparr>r_level = risk_level_of risk_score,
         r_score = min risk_score 100,
         factors = risk_factors\<rparr>)"

text \<open>The table of the rules, as the specification of one pattern's contribution.\<close>

definition risk_rule :: "pattern \<Rightarrow> (nat \<times> factor) option" where
  "risk_rule p =
     (case ptype p of
        micro_double_pattern \<Rightarrow>
          if 8 / 10 \<le> strength p then Some (70, Padrao_2x2_critico) else None
      | micro_alternation \<Rightarrow>
          if 8 / 10 \<le> strength p then Some (65, Alternacao_artificial_critica) else None
      | hidden_cycle \<Rightarrow>
          if 3 \<le> get_repetitions p
          then Some (60, Ciclo_programado_ativo (get_repetitions p)) else None
      | artificial_balance \<Rightarrow> Some (55, Equilibrio_artificial_forcado)
      | intentional_break \<Rightarrow> Some (50, Quebra_intencional)
      | strategic_tie_after_sequence \<Rightarrow> Some (40, Empate_estrategico)
      | strategic_tie_before_reversal \<Rightarrow> Some (40, Empate_estrategico)
      | compensation_pending \<Rightarrow> None)"

definition risk_points :: "pattern \<Rightarrow> nat" where
  "risk_points p = (case risk_rule p of None \<Rightarrow> 0 | Some (n, f) \<Rightarrow> n)"

definition risk_factors :: "pattern \<Rightarrow> factor list" where
  "risk_factors p = (case risk_rule p of None \<Rightarrow> [] | Some (n, f) \<Rightarrow> [f])"

definition risk_total :: "pattern list \<Rightarrow> nat" where
  "risk_total ps = sum_list (map risk_points ps)"

section \<open>The loop refines the table\<close>

lemma risk_step_rule:
  "risk_step (s, fs) p = (s + risk_points p, fs @ risk_factors p)"
  by (cases "ptype p")
    (simp_all add: risk_step_def risk_points_def risk_factors_def risk_rule_def
      startswith_strategic_tie_def)

lemma foldl_risk_step:
  "foldl risk_step (s, fs) ps = (s + risk_total ps, fs @ concat (map risk_factors ps))"
  by (induction ps arbitrary: s fs) (simp_all add: risk_step_rule risk_total_def)

lemma assess_risk_simps:
  "r_level (assess_risk ps) = risk_level_of (risk_total ps)"
  "r_score (assess_risk ps) = min (risk_total ps) 100"
  "factors (assess_risk ps) = concat (map risk_factors ps)"
  by (simp_all add: assess_risk_def foldl_risk_step)

text \<open>
  C7: The loop of \<^verbatim>\<open>assess_risk\<close> implements the table of the rules: the level is
  the threshold level of the sum of the points of all patterns, the score is
  that sum clamped at 100, and the factors are the texts of the triggered rules
  in the order of the patterns.
\<close>

theorem assess_risk_refines:
  "assess_risk ps =
     \<lparr>r_level = risk_level_of (risk_total ps),
      r_score = min (risk_total ps) 100,
      factors = concat (map risk_factors ps)\<rparr>"
  by (simp add: assess_risk_def foldl_risk_step)


section \<open>Points and levels\<close>

lemma risk_points_cases: "risk_points p = 0 \<and> risk_factors p = [] \<or> 40 \<le> risk_points p \<and> risk_factors p \<noteq> []"
  by (cases "ptype p") (simp_all add: risk_points_def risk_factors_def risk_rule_def)

lemma risk_points_le: "risk_points p \<le> 70"
  by (cases "ptype p") (simp_all add: risk_points_def risk_rule_def)

lemma risk_total_append [simp]: "risk_total (ps @ qs) = risk_total ps + risk_total qs"
  by (simp add: risk_total_def)

lemma risk_total_Nil [simp]: "risk_total [] = 0"
  by (simp add: risk_total_def)

lemma risk_total_Cons [simp]: "risk_total (p # ps) = risk_points p + risk_total ps"
  by (simp add: risk_total_def)

lemma risk_total_zero_iff: "risk_total ps = 0 \<longleftrightarrow> concat (map risk_factors ps) = []"
proof (induction ps)
  case Nil
  show ?case by simp
next
  case (Cons p ps)
  with risk_points_cases [of p] show ?case by auto
qed

lemma risk_total_positive: "risk_total ps \<noteq> 0 \<Longrightarrow> 40 \<le> risk_total ps"
proof (induction ps)
  case Nil
  then show ?case by simp
next
  case (Cons p ps)
  with risk_points_cases [of p] show ?case by (cases "risk_points p = 0") auto
qed

lemma risk_total_two_factors:
  "2 \<le> length (concat (map risk_factors ps)) \<Longrightarrow> 80 \<le> risk_total ps"
proof (induction ps)
  case Nil
  then show ?case by simp
next
  case (Cons p ps)
  show ?case
  proof (cases "risk_factors p = []")
    case True
    with Cons show ?thesis by simp
  next
    case False
    with risk_points_cases [of p] have p: "40 \<le> risk_points p" by auto
    have "length (risk_factors p) \<le> 1"
      by (simp add: risk_factors_def split: option.splits)
    with Cons.prems have "0 < length (concat (map risk_factors ps))"
      by (simp del: length_greater_0_conv)
    then have "risk_total ps \<noteq> 0" by (simp add: risk_total_zero_iff)
    then have "40 \<le> risk_total ps" by (rule risk_total_positive)
    with p show ?thesis by simp
  qed
qed

lemma risk_level_of_mono: "a \<le> b \<Longrightarrow> risk_level_of a \<le> risk_level_of b"
  by (simp add: risk_level_of_def less_eq_level_def)

lemma risk_level_of_clamped: "risk_level_of (min s 100) = risk_level_of s"
  by (simp add: risk_level_of_def min_def)

lemma risk_level_of_low: "risk_level_of s = low \<longleftrightarrow> s < 30"
  by (simp add: risk_level_of_def)

lemma risk_level_of_critical: "risk_level_of s = critical \<longleftrightarrow> 80 \<le> s"
  by (simp add: risk_level_of_def)

section \<open>The assessment\<close>

lemma assess_risk_Nil: "assess_risk [] = \<lparr>r_level = low, r_score = 0, factors = []\<rparr>"
  by (simp add: assess_risk_def risk_level_of_def)

lemma assess_risk_score_le: "r_score (assess_risk ps) \<le> 100"
  by (simp add: assess_risk_simps)

text \<open>
  C28: The level is computed from the running total before it is clamped, and it
  is nevertheless the level of the reported score: every threshold lies below
  the clamp of 100. The reported score is the total of the contributions cut
  off at 100.
\<close>

lemma assess_risk_level_clamped:
  "r_level (assess_risk ps) = risk_level_of (r_score (assess_risk ps))
   \<and> r_score (assess_risk ps) = min (risk_total ps) 100"
  by (simp add: assess_risk_simps risk_level_of_clamped)

text \<open>
  C25: The risk level is low exactly when no rule was triggered: the smallest
  contribution of a rule, 40, already exceeds the threshold of medium.
\<close>

lemma assess_risk_low_iff:
  "r_level (assess_risk ps) = low \<longleftrightarrow> factors (assess_risk ps) = []"
proof -
  have "risk_total ps < 30 \<longleftrightarrow> risk_total ps = 0"
  proof (cases "risk_total ps = 0")
    case True
    then show ?thesis by simp
  next
    case False
    then have "40 \<le> risk_total ps" by (rule risk_total_positive)
    with False show ?thesis by simp
  qed
  then show ?thesis
    by (simp add: assess_risk_simps risk_level_of_low risk_total_zero_iff)
qed

text \<open>
  C27: Two triggered rules make the risk critical, whatever the rules are: each
  contributes at least 40 and the threshold of critical is 80.
\<close>

lemma assess_risk_two_factors:
  "2 \<le> length (factors (assess_risk ps)) \<Longrightarrow> r_level (assess_risk ps) = critical"
  by (simp add: assess_risk_simps risk_level_of_critical risk_total_two_factors)

lemma assess_risk_mono:
  "r_level (assess_risk ps) \<le> r_level (assess_risk (ps @ qs))
   \<and> r_score (assess_risk ps) \<le> r_score (assess_risk (ps @ qs))"
  by (simp add: assess_risk_simps risk_level_of_mono)

lemma assess_risk_order:
  "r_score (assess_risk (ps @ qs)) = r_score (assess_risk (qs @ ps))
   \<and> r_level (assess_risk (ps @ qs)) = r_level (assess_risk (qs @ ps))"
  by (simp add: assess_risk_simps add.commute)

section \<open>Witnesses\<close>

theorem assess_risk_two_factors_witness:
  "2 \<le> length (factors (assess_risk
      [\<lparr>ptype = intentional_break, strength = 1, risk = high,
         description = Equilibrio_artificial 0, manipulation = ALTA,
         predictability = 50, extra = no_extra\<rparr>,
       \<lparr>ptype = artificial_balance, strength = 1, risk = high,
         description = Equilibrio_artificial 15, manipulation = Forcando_distribuicao,
         predictability = 85, extra = balance_extra 15 7 8\<rparr>]))
   \<and> r_level (assess_risk
      [\<lparr>ptype = intentional_break, strength = 1, risk = high,
         description = Equilibrio_artificial 0, manipulation = ALTA,
         predictability = 50, extra = no_extra\<rparr>,
       \<lparr>ptype = artificial_balance, strength = 1, risk = high,
         description = Equilibrio_artificial 15, manipulation = Forcando_distribuicao,
         predictability = 85, extra = balance_extra 15 7 8\<rparr>]) = critical"
proof -
  let ?ps = "[\<lparr>ptype = intentional_break, strength = 1, risk = high,
         description = Equilibrio_artificial 0, manipulation = ALTA,
         predictability = 50, extra = no_extra\<rparr>,
       \<lparr>ptype = artificial_balance, strength = 1, risk = high,
         description = Equilibrio_artificial 15, manipulation = Forcando_distribuicao,
         predictability = 85, extra = balance_extra 15 7 8\<rparr>]"
  have two: "2 \<le> length (factors (assess_risk ?ps))"
    by (simp add: assess_risk_simps risk_factors_def risk_rule_def)
  from two assess_risk_two_factors [OF two] show ?thesis by simp
qed

end
