(* ===== verification/Manipulation.thy ===== *)
theory Manipulation
  imports Risk
begin

text \<open>
  \<^verbatim>\<open>CasinoAnalyzer.detect_manipulation\<close> (lines 202 to 226 of \<^verbatim>\<open>src/Hacker.py\<close>).

  \<open>manipulation_step\<close> is one iteration of the loop over the state
  \<^verbatim>\<open>(manipulation_score, manipulation_signs)\<close>, \<open>manipulation_level_of\<close> the
  threshold chain and \<open>detect_manipulation\<close> the whole method; its second
  parameter, the risk assessment, is passed as in the source and never read. A
  \<open>sign\<close> is one of the three texts with the description of the pattern it
  quotes. The fields of the returned dictionary are \<open>m_level\<close>, \<open>m_score\<close> and
  \<open>signs\<close>.

  The specification is \<open>manipulation_points\<close>, the contribution of one
  pattern by its predictability. The loop refines the sum; the lemmas bound
  the score, show that the level is that of the clamped score, that it is low
  exactly when every predictability is below 70, and that one pattern of
  predictability 80 or more already makes it high or critical.
\<close>

section \<open>Definitions\<close>

datatype sign =
    Altamente_artificial descr | Padrao_programado descr | Padrao_suspeito descr

record manipulation_assessment =
  m_level :: level
  m_score :: nat
  signs :: "sign list"

definition manipulation_step :: "nat \<times> sign list \<Rightarrow> pattern \<Rightarrow> nat \<times> sign list" where
  "manipulation_step acc pattern =
     (case acc of (manipulation_score, manipulation_signs) \<Rightarrow>
        let p = predictability pattern in
        if p \<ge> 90
          then (manipulation_score + 80,
                manipulation_signs @ [Altamente_artificial (description pattern)])
        else if p \<ge> 80
          then (manipulation_score + 60,
                manipulation_signs @ [Padrao_programado (description pattern)])
        else if p \<ge> 70
          then (manipulation_score + 40,
                manipulation_signs @ [Padrao_suspeito (description pattern)])
        else (manipulation_score, manipulation_signs))"

definition manipulation_level_of :: "nat \<Rightarrow> level" where
  "manipulation_level_of manipulation_score =
     (if manipulation_score \<ge> 80 then critical
      else if manipulation_score \<ge> 60 then high
      else if manipulation_score \<ge> 35 then medium
      else low)"

definition detect_manipulation ::
    "pattern list \<Rightarrow> risk_assessment \<Rightarrow> manipulation_assessment" where
  "detect_manipulation patterns risk_a =
     (case foldl manipulation_step (0, []) patterns of
        (manipulation_score, manipulation_signs) \<Rightarrow>
          \<lparr>m_level = manipulation_level_of manipulation_score,
           m_score = min manipulation_score 100,
           signs = manipulation_signs\<rparr>)"

text \<open>The contribution of one pattern, as the specification.\<close>

definition manipulation_points :: "pattern \<Rightarrow> nat" where
  "manipulation_points p =
     (if 90 \<le> predictability p then 80
      else if 80 \<le> predictability p then 60
      else if 70 \<le> predictability p then 40 else 0)"

definition manipulation_signs_of :: "pattern \<Rightarrow> sign list" where
  "manipulation_signs_of p =
     (if 90 \<le> predictability p then [Altamente_artificial (description p)]
      else if 80 \<le> predictability p then [Padrao_programado (description p)]
      else if 70 \<le> predictability p then [Padrao_suspeito (description p)] else [])"

definition manipulation_total :: "pattern list \<Rightarrow> nat" where
  "manipulation_total ps = sum_list (map manipulation_points ps)"

section \<open>The loop refines the sum\<close>

lemma manipulation_step_points:
  "manipulation_step (s, sg) p = (s + manipulation_points p, sg @ manipulation_signs_of p)"
  by (simp add: manipulation_step_def manipulation_points_def manipulation_signs_of_def Let_def)

lemma foldl_manipulation_step:
  "foldl manipulation_step (s, sg) ps
     = (s + manipulation_total ps, sg @ concat (map manipulation_signs_of ps))"
  by (induction ps arbitrary: s sg)
    (simp_all add: manipulation_step_points manipulation_total_def)

lemma detect_manipulation_simps:
  "m_level (detect_manipulation ps risk_a) = manipulation_level_of (manipulation_total ps)"
  "m_score (detect_manipulation ps risk_a) = min (manipulation_total ps) 100"
  "signs (detect_manipulation ps risk_a) = concat (map manipulation_signs_of ps)"
  by (simp_all add: detect_manipulation_def foldl_manipulation_step)

text \<open>
  C8: The loop of \<^verbatim>\<open>detect_manipulation\<close> implements the sum of the contributions:
  80 for a predictability of at least 90, else 60 from 80 on, else 40 from 70
  on; the score is the sum clamped at 100, the signs follow the order of the
  patterns, and the risk argument has no influence.
\<close>

theorem detect_manipulation_refines:
  "detect_manipulation ps risk_a =
     \<lparr>m_level = manipulation_level_of (manipulation_total ps),
      m_score = min (manipulation_total ps) 100,
      signs = concat (map manipulation_signs_of ps)\<rparr>"
  by (simp add: detect_manipulation_def foldl_manipulation_step)


section \<open>Points and levels\<close>

lemma manipulation_total_Nil [simp]: "manipulation_total [] = 0"
  by (simp add: manipulation_total_def)

lemma manipulation_total_Cons [simp]:
  "manipulation_total (p # ps) = manipulation_points p + manipulation_total ps"
  by (simp add: manipulation_total_def)

lemma manipulation_total_append [simp]:
  "manipulation_total (ps @ qs) = manipulation_total ps + manipulation_total qs"
  by (simp add: manipulation_total_def)

lemma manipulation_points_zero_iff: "manipulation_points p = 0 \<longleftrightarrow> predictability p < 70"
  by (auto simp: manipulation_points_def)

lemma manipulation_points_ge_40: "manipulation_points p \<noteq> 0 \<Longrightarrow> 40 \<le> manipulation_points p"
  by (simp add: manipulation_points_def split: if_splits)

lemma manipulation_points_80: "80 \<le> predictability p \<Longrightarrow> 60 \<le> manipulation_points p"
  by (simp add: manipulation_points_def)

lemma manipulation_total_member:
  "p \<in> set ps \<Longrightarrow> manipulation_points p \<le> manipulation_total ps"
  unfolding manipulation_total_def by (rule member_le_sum_list_nat)

lemma manipulation_total_zero_iff:
  "manipulation_total ps = 0 \<longleftrightarrow> list_all (\<lambda>p. predictability p < 70) ps"
  by (induction ps) (simp_all add: manipulation_points_zero_iff)

lemma manipulation_total_positive:
  "manipulation_total ps \<noteq> 0 \<Longrightarrow> 40 \<le> manipulation_total ps"
proof (induction ps)
  case Nil
  then show ?case by simp
next
  case (Cons p ps)
  show ?case
  proof (cases "manipulation_points p = 0")
    case True
    with Cons show ?thesis by simp
  next
    case False
    then have "40 \<le> manipulation_points p" by (rule manipulation_points_ge_40)
    then show ?thesis by simp
  qed
qed

lemma manipulation_level_of_mono:
  "a \<le> b \<Longrightarrow> manipulation_level_of a \<le> manipulation_level_of b"
  by (simp add: manipulation_level_of_def less_eq_level_def)

lemma manipulation_level_of_clamped:
  "manipulation_level_of (min s 100) = manipulation_level_of s"
  by (simp add: manipulation_level_of_def min_def)

lemma manipulation_level_of_low: "manipulation_level_of s = low \<longleftrightarrow> s < 35"
  by (simp add: manipulation_level_of_def)

lemma manipulation_level_of_high: "high \<le> manipulation_level_of s \<longleftrightarrow> 60 \<le> s"
  by (simp add: manipulation_level_of_def less_eq_level_def)

section \<open>The assessment\<close>

lemma detect_manipulation_Nil:
  "detect_manipulation [] risk_a = \<lparr>m_level = low, m_score = 0, signs = []\<rparr>"
  by (simp add: detect_manipulation_def manipulation_level_of_def)

text \<open>
  C29: The manipulation score is at most 100, and the level, computed from the
  unclamped total, is the level of the reported score.
\<close>

lemma detect_manipulation_level_clamped:
  "m_level (detect_manipulation ps risk_a)
     = manipulation_level_of (m_score (detect_manipulation ps risk_a))
   \<and> m_score (detect_manipulation ps risk_a) \<le> 100"
  by (simp add: detect_manipulation_simps manipulation_level_of_clamped)

text \<open>
  C26: The manipulation level is low exactly when every pattern has a
  predictability below 70: one contribution of 40 already passes the threshold
  of medium.
\<close>

lemma detect_manipulation_low_iff:
  "m_level (detect_manipulation ps risk_a) = low
     \<longleftrightarrow> list_all (\<lambda>p. predictability p < 70) ps"
proof -
  have "manipulation_total ps < 35 \<longleftrightarrow> manipulation_total ps = 0"
  proof (cases "manipulation_total ps = 0")
    case True
    then show ?thesis by simp
  next
    case False
    then have "40 \<le> manipulation_total ps" by (rule manipulation_total_positive)
    with False show ?thesis by simp
  qed
  then show ?thesis
    by (simp add: detect_manipulation_simps manipulation_level_of_low
        manipulation_total_zero_iff)
qed

text \<open>
  One pattern with a predictability of 80 or more makes the manipulation
  level high or critical, whatever the other patterns are.
\<close>

lemma detect_manipulation_high:
  assumes "p \<in> set ps" and "80 \<le> predictability p"
  shows "high \<le> m_level (detect_manipulation ps risk_a)"
proof -
  from assms(2) have "60 \<le> manipulation_points p" by (rule manipulation_points_80)
  also from assms(1) have "\<dots> \<le> manipulation_total ps" by (rule manipulation_total_member)
  finally show ?thesis
    by (simp add: detect_manipulation_simps manipulation_level_of_high)
qed

lemma detect_manipulation_mono:
  "m_level (detect_manipulation ps risk_a) \<le> m_level (detect_manipulation (ps @ qs) risk_a)
   \<and> m_score (detect_manipulation ps risk_a) \<le> m_score (detect_manipulation (ps @ qs) risk_a)"
  by (simp add: detect_manipulation_simps manipulation_level_of_mono)

section \<open>Witnesses\<close>

theorem detect_manipulation_high_witness:
  "high \<le> m_level (detect_manipulation
      [\<lparr>ptype = artificial_balance, strength = 1, risk = high,
         description = Equilibrio_artificial 15, manipulation = Forcando_distribuicao,
         predictability = 85, extra = balance_extra 15 7 8\<rparr>] (assess_risk []))"
  by (rule detect_manipulation_high [where p = "\<lparr>ptype = artificial_balance, strength = 1,
         risk = high, description = Equilibrio_artificial 15,
         manipulation = Forcando_distribuicao,
         predictability = 85, extra = balance_extra 15 7 8\<rparr>"]) simp_all

end
