(* ===== verification/Prediction.thy ===== *)
theory Prediction
  imports Manipulation
begin

text \<open>
  \<^verbatim>\<open>CasinoAnalyzer.make_prediction\<close> and \<^verbatim>\<open>predict_next_in_cycle\<close> (lines 228 to
  290 of \<^verbatim>\<open>src/Hacker.py\<close>).

  \<open>make_prediction\<close> is the decision chain in the order of the source. Its
  first two branches return at once; the third looks for the first pending
  compensation (\<^verbatim>\<open>next(...)\<close> is \<open>find\<close>) and reads its favoured colour, which
  raises \<^verbatim>\<open>KeyError\<close> when the key is missing; \<open>cycle_prediction\<close> is the rest
  of the method from the search for a hidden cycle on, and
  \<open>frequency_prediction\<close> the fallback on the most common colour
  (\<^verbatim>\<open>Counter(...).most_common(1)[0]\<close>). \<open>predict_next_in_cycle\<close> keeps the scan
  loop of the source as \<open>cycle_scan\<close>, whose result the method never uses. The
  result is \<open>Inl KeyError\<close> or \<open>Inr\<close> of the prediction dictionary; the
  strategies and reasonings are the fixed texts of the source.

  The lemmas give the result of every branch, show that the method cannot
  raise on well-formed patterns and in which situation exactly it raises, that a
  high or critical manipulation level blocks every colour, and characterise
  the fallback: the colour is a most frequent one, in closed form \<open>dominant\<close>
  (the first non-tie result unless the other colour is strictly more
  frequent), and the confidence lies between 50 and 75.
\<close>

section \<open>Definitions\<close>

datatype strategy =
    AGUARDAR_MELHORES_CONDICOES | PARAR_COMPLETAMENTE | AGUARDAR_NORMALIZACAO
  | APOSTAR_COMPENSACAO | SEGUIR_CICLO | APOSTAR_NA_PRINCIPAL_COR

datatype reason =
    Sem_razao | Condicoes_criticas | Manipulacao_alta
  | Compensacao_esperada descr | Ciclo_detectado history nat
  | Frequencia_historica outcome nat nat

record prediction =
  color :: "outcome option"
  confidence :: rat
  reasoning :: reason
  strategy :: strategy

fun cycle_scan :: "history \<Rightarrow> history \<Rightarrow> nat \<Rightarrow> nat" where
  "cycle_scan pattern [] i = i"
| "cycle_scan pattern (x # rest) i =
     (if x \<noteq> pattern ! (i mod length pattern) then i else cycle_scan pattern rest (i + 1))"

definition predict_next_in_cycle :: "history \<Rightarrow> history \<Rightarrow> outcome option" where
  "predict_next_in_cycle results pattern =
     (let ne = non_empate results
      in if pattern = [] \<or> ne = [] then None
         else
           let cycle_len = length pattern;
               stopped_at = cycle_scan pattern ne 0;
               pos = length ne mod cycle_len
           in if pos < cycle_len then Some (pattern ! pos) else None)"

definition initial_prediction :: prediction where
  "initial_prediction =
     \<lparr>color = None, confidence = 0, reasoning = Sem_razao,
      strategy = AGUARDAR_MELHORES_CONDICOES\<rparr>"

definition frequency_prediction :: "history \<Rightarrow> prediction \<Rightarrow> prediction" where
  "frequency_prediction results prediction =
     (let ne = non_empate results
      in if ne = [] then prediction
         else case py_max snd (Counter ne) of
                None \<Rightarrow> prediction
              | Some (most_common_color, n) \<Rightarrow>
                  let conf = (of_nat n / of_nat (length ne)) * 100
                  in prediction\<lparr>color := Some most_common_color,
                        confidence := min conf 75,
                        reasoning := Frequencia_historica most_common_color n (length ne),
                        strategy := APOSTAR_NA_PRINCIPAL_COR\<rparr>)"

definition cycle_prediction :: "history \<Rightarrow> pattern list \<Rightarrow> risk_assessment \<Rightarrow>
    manipulation_assessment \<Rightarrow> prediction \<Rightarrow> py_error + prediction" where
  "cycle_prediction results patterns risk_a manipulation_a prediction =
     (case find (\<lambda>p. ptype p = hidden_cycle \<and> get_repetitions p \<ge> 2) patterns of
        Some cycle_pattern \<Rightarrow>
          if r_level risk_a = low \<and> m_level manipulation_a = low then
            (case lookup_pattern cycle_pattern of
               Inl e \<Rightarrow> Inl e
             | Inr cyc \<Rightarrow>
                 (case predict_next_in_cycle results cyc of
                    Some next_color \<Rightarrow>
                      (case lookup_repetitions cycle_pattern of
                         Inl e \<Rightarrow> Inl e
                       | Inr reps \<Rightarrow>
                           Inr (prediction\<lparr>color := Some next_color,
                                  confidence := min 70 (50 + of_nat reps * 5),
                                  reasoning := Ciclo_detectado cyc reps,
                                  strategy := SEGUIR_CICLO\<rparr>))
                  | None \<Rightarrow> Inr (frequency_prediction results prediction)))
          else Inr (frequency_prediction results prediction)
      | None \<Rightarrow> Inr (frequency_prediction results prediction))"

definition make_prediction :: "history \<Rightarrow> pattern list \<Rightarrow> risk_assessment \<Rightarrow>
    manipulation_assessment \<Rightarrow> py_error + prediction" where
  "make_prediction results patterns risk_a manipulation_a =
     (let prediction = initial_prediction in
      if r_level risk_a = critical \<or> m_level manipulation_a = critical
        then Inr (prediction\<lparr>reasoning := Condicoes_criticas,
                    strategy := PARAR_COMPLETAMENTE\<rparr>)
      else if m_level manipulation_a = high
        then Inr (prediction\<lparr>reasoning := Manipulacao_alta,
                    strategy := AGUARDAR_NORMALIZACAO\<rparr>)
      else
        (case find (\<lambda>p. ptype p = compensation_pending) patterns of
           Some compensation_pattern \<Rightarrow>
             if r_level risk_a = low \<and> m_level manipulation_a = low then
               (case lookup_favored_color compensation_pattern of
                  Inl e \<Rightarrow> Inl e
                | Inr c \<Rightarrow>
                    Inr (prediction\<lparr>color := Some c,
                           confidence := min 75 (55 + strength compensation_pattern * 20),
                           reasoning := Compensacao_esperada (description compensation_pattern),
                           strategy := APOSTAR_COMPENSACAO\<rparr>))
             else cycle_prediction results patterns risk_a manipulation_a prediction
         | None \<Rightarrow> cycle_prediction results patterns risk_a manipulation_a prediction))"

text \<open>
  The colour of the fallback in closed form: the first non-tie result of the
  history, unless the other colour occurs strictly more often.
\<close>

definition other_color :: "outcome \<Rightarrow> outcome" where
  "other_color a = (if a = C then V else C)"

definition dominant :: "history \<Rightarrow> outcome" where
  "dominant ne =
     (if count_list ne (hd ne) < count_list ne (other_color (hd ne))
      then other_color (hd ne) else hd ne)"

section \<open>Cycle continuation\<close>

lemma cycle_scan_bounds: "i \<le> cycle_scan pattern xs i \<and> cycle_scan pattern xs i \<le> i + length xs"
proof (induction xs arbitrary: i)
  case Nil
  show ?case by simp
next
  case (Cons x xs)
  from Cons.IH [of "i + 1"] show ?case by auto
qed

text \<open>
  C19: For a non-empty cycle and at least one non-tie result the continuation is
  the element of the cycle at index (number of non-tie results) mod (length of
  the cycle); the scan of the history against the cycle has no influence on it.
\<close>

lemma predict_next_in_cycle_eq:
  assumes "pattern \<noteq> []" and "non_empate results \<noteq> []"
  shows "predict_next_in_cycle results pattern
           = Some (pattern ! (length (non_empate results) mod length pattern))"
  using assms by (simp add: predict_next_in_cycle_def Let_def)

lemma predict_next_in_cycle_None:
  "predict_next_in_cycle results pattern = None
     \<longleftrightarrow> pattern = [] \<or> non_empate results = []"
  by (auto simp: predict_next_in_cycle_def Let_def)

lemma predict_next_in_cycle_mem:
  "predict_next_in_cycle results pattern = Some c \<Longrightarrow> c \<in> set pattern"
  by (auto simp: predict_next_in_cycle_def Let_def split: if_splits)

section \<open>The fallback\<close>

lemma most_common_spec:
  assumes "py_max snd (Counter xs) = Some (c, n)"
  shows "c \<in> set xs \<and> n = count_list xs c \<and> (\<forall>c'. count_list xs c' \<le> n)"
proof -
  from assms have "(c, n) \<in> set (Counter xs)" by (rule py_max_in)
  then have cn: "c \<in> set xs" "n = count_list xs c"
    by (simp_all add: Counter_iff)
  have "count_list xs c' \<le> n" for c'
  proof (cases "c' \<in> set xs")
    case True
    then have "(c', count_list xs c') \<in> set (Counter xs)"
      by (simp add: Counter_iff)
    with assms have "snd (c', count_list xs c') \<le> snd (c, n)" by (rule py_max_ge)
    then show ?thesis by simp
  next
    case False
    then show ?thesis by (simp add: count_list_0_iff)
  qed
  with cn show ?thesis by blast
qed

lemma frequency_prediction_Nil:
  "non_empate results = [] \<Longrightarrow> frequency_prediction results p = p"
  by (simp add: frequency_prediction_def)

lemma frequency_prediction_Some:
  assumes "non_empate results \<noteq> []"
  shows "\<exists>c n. py_max snd (Counter (non_empate results)) = Some (c, n)
     \<and> frequency_prediction results p =
         p\<lparr>color := Some c,
           confidence := min (of_nat n / of_nat (length (non_empate results)) * 100) 75,
           reasoning := Frequencia_historica c n (length (non_empate results)),
           strategy := APOSTAR_NA_PRINCIPAL_COR\<rparr>"
proof -
  from assms have "Counter (non_empate results) \<noteq> []" by simp
  then obtain m where m: "py_max snd (Counter (non_empate results)) = Some m"
    using py_max_Some by blast
  obtain c n where "m = (c, n)" by (cases m)
  with m assms show ?thesis
    by (simp add: frequency_prediction_def Let_def)
qed

lemma majority_half:
  assumes "set xs \<subseteq> {C, V}" and "\<forall>c'. count_list xs c' \<le> n"
  shows "length xs \<le> 2 * n"
proof -
  from assms(2) have "count_list xs C \<le> n" "count_list xs V \<le> n" by simp_all
  with binary_counts [OF assms(1)] show ?thesis by simp
qed

text \<open>
  C17: With at least one non-tie result the fallback predicts a colour that
  occurs in the history and that no colour outnumbers, with the confidence
  min(100 * count / total, 75), which lies between 50 and 75, and the strategy
  of betting on the main colour.
\<close>

lemma frequency_prediction_spec:
  assumes "non_empate results \<noteq> []"
  shows "\<exists>c. color (frequency_prediction results p) = Some c
     \<and> c \<in> set (non_empate results)
     \<and> (\<forall>c'. count_list (non_empate results) c' \<le> count_list (non_empate results) c)
     \<and> confidence (frequency_prediction results p)
         = min (100 * of_nat (count_list (non_empate results) c)
                  / of_nat (length (non_empate results))) 75
     \<and> 50 \<le> confidence (frequency_prediction results p)
     \<and> confidence (frequency_prediction results p) \<le> 75
     \<and> strategy (frequency_prediction results p) = APOSTAR_NA_PRINCIPAL_COR"
proof -
  let ?ne = "non_empate results"
  from frequency_prediction_Some [OF assms, of p] obtain c n
    where mx: "py_max snd (Counter ?ne) = Some (c, n)"
      and fp: "frequency_prediction results p =
         p\<lparr>color := Some c, confidence := min (of_nat n / of_nat (length ?ne) * 100) 75,
           reasoning := Frequencia_historica c n (length ?ne),
           strategy := APOSTAR_NA_PRINCIPAL_COR\<rparr>"
    by blast
  from most_common_spec [OF mx]
  have c: "c \<in> set ?ne" and n: "n = count_list ?ne c" and mx': "\<forall>c'. count_list ?ne c' \<le> n"
    by blast+
  from assms have len: "0 < length ?ne" by simp
  have "length ?ne \<le> 2 * n"
    using set_non_empate mx' by (rule majority_half)
  then have "rat_of_nat (length ?ne) \<le> rat_of_nat (2 * n)"
    by (simp only: of_nat_le_iff)
  with len have "50 \<le> rat_of_nat n / rat_of_nat (length ?ne) * 100"
    by (simp add: field_simps)
  with c n mx' show ?thesis
    by (intro exI [of _ c]) (simp add: fp mult.commute)
qed

lemma most_common_first:
  assumes "xs \<noteq> []" and "\<forall>c'. count_list xs c' \<le> count_list xs (hd xs)"
  shows "py_max snd (Counter xs) = Some (hd xs, count_list xs (hd xs))"
proof -
  from assms(1) have ne: "Counter xs \<noteq> []" by simp
  obtain k m where km: "hd (Counter xs) = (k, m)" by (cases "hd (Counter xs)")
  with ne have "(k, m) \<in> set (Counter xs)" by (cases "Counter xs") auto
  then have "m = count_list xs k" by (simp add: Counter_iff)
  moreover from km have "k = hd xs" using hd_Counter [OF assms(1)] by simp
  ultimately have hd: "hd (Counter xs) = (hd xs, count_list xs (hd xs))"
    using km by simp
  have "\<forall>x \<in> set (Counter xs). snd x \<le> snd (hd (Counter xs))"
    using assms(2) by (auto simp: hd Counter_iff)
  with ne have "py_max snd (Counter xs) = Some (hd (Counter xs))" by (rule py_max_hd)
  with hd show ?thesis by simp
qed

lemma binary_other:
  assumes "set xs \<subseteq> {C, V}" and "a \<in> set xs" and "c \<in> set xs" and "c \<noteq> a"
  shows "c = other_color a"
  using assms by (cases a; cases c) (auto simp: other_color_def)

lemma count_list_binary_le:
  assumes "set xs \<subseteq> {C, V}" and "a \<in> set xs"
    and "count_list xs (other_color a) \<le> count_list xs a"
  shows "count_list xs c' \<le> count_list xs a"
proof (cases "c' \<in> set xs")
  case False
  then show ?thesis by (simp add: count_list_0_iff)
next
  case True
  with assms show ?thesis
    using binary_other [OF assms(1,2) True] by (cases "c' = a") auto
qed

text \<open>
  C18: The colour of the fallback is the first non-tie result of the history,
  unless the other colour occurs strictly more often: on equal counts the colour
  seen first wins, as the insertion order of the counter and the first maximum
  of \<^verbatim>\<open>most_common\<close> decide.
\<close>

theorem frequency_prediction_color:
  assumes "non_empate results \<noteq> []"
  shows "color (frequency_prediction results p) = Some (dominant (non_empate results))"
proof -
  let ?ne = "non_empate results"
  let ?a = "hd ?ne"
  from frequency_prediction_Some [OF assms, of p] obtain c n
    where mx: "py_max snd (Counter ?ne) = Some (c, n)"
      and col: "color (frequency_prediction results p) = Some c"
    by force
  from assms have a: "?a \<in> set ?ne" by simp
  show ?thesis
  proof (cases "count_list ?ne ?a < count_list ?ne (other_color ?a)")
    case True
    from most_common_spec [OF mx] have c: "c \<in> set ?ne"
        and "count_list ?ne (other_color ?a) \<le> count_list ?ne c"
      by auto
    with True have "c \<noteq> ?a" by auto
    with set_non_empate a c have "c = other_color ?a" by (rule binary_other)
    with True col show ?thesis by (simp add: dominant_def)
  next
    case False
    then have "\<forall>c'. count_list ?ne c' \<le> count_list ?ne ?a"
      using count_list_binary_le [OF set_non_empate a] by simp
    with assms have "py_max snd (Counter ?ne) = Some (?a, count_list ?ne ?a)"
      by (rule most_common_first)
    with mx False col show ?thesis by (simp add: dominant_def)
  qed
qed

section \<open>The decision chain\<close>

text \<open>
  C20: A critical risk or a critical manipulation level makes the predictor
  return no colour, confidence 0 and the strategy of stopping completely,
  whatever the patterns and the history are.
\<close>

lemma make_prediction_critical:
  "r_level risk_a = critical \<or> m_level manipulation_a = critical \<Longrightarrow>
     make_prediction results patterns risk_a manipulation_a =
       Inr \<lparr>color = None, confidence = 0, reasoning = Condicoes_criticas,
            strategy = PARAR_COMPLETAMENTE\<rparr>"
  by (simp add: make_prediction_def initial_prediction_def)

lemma make_prediction_high:
  "r_level risk_a \<noteq> critical \<Longrightarrow> m_level manipulation_a = high \<Longrightarrow>
     make_prediction results patterns risk_a manipulation_a =
       Inr \<lparr>color = None, confidence = 0, reasoning = Manipulacao_alta,
            strategy = AGUARDAR_NORMALIZACAO\<rparr>"
  by (simp add: make_prediction_def initial_prediction_def)

text \<open>
  C21: A manipulation level of high or critical blocks every colour: the
  predictor returns no colour, confidence 0 and one of the two waiting
  strategies.
\<close>

lemma make_prediction_blocked:
  assumes "high \<le> m_level manipulation_a"
  shows "\<exists>p. make_prediction results patterns risk_a manipulation_a = Inr p
     \<and> color p = None \<and> confidence p = 0
     \<and> (strategy p = PARAR_COMPLETAMENTE \<or> strategy p = AGUARDAR_NORMALIZACAO)"
proof (cases "r_level risk_a = critical \<or> m_level manipulation_a = critical")
  case True
  then show ?thesis by (simp add: make_prediction_def initial_prediction_def)
next
  case False
  with assms have "m_level manipulation_a = high" by (simp add: high_le_iff)
  with False show ?thesis by (simp add: make_prediction_high)
qed

lemma cycle_prediction_total:
  "\<exists>p. cycle_prediction results patterns risk_a manipulation_a prediction = Inr p"
proof (cases "find (\<lambda>p. ptype p = hidden_cycle \<and> get_repetitions p \<ge> 2) patterns")
  case None
  then show ?thesis by (simp add: cycle_prediction_def)
next
  case (Some cp)
  then have "2 \<le> get_repetitions cp" by (auto simp: find_Some_iff)
  then obtain L c where "lookup_pattern cp = Inr c"
      "lookup_repetitions cp = Inr (get_repetitions cp)"
    using lookup_cycle_repetitions by blast
  with Some show ?thesis
    by (simp add: cycle_prediction_def split: option.splits)
qed

text \<open>
  C9: On well-formed patterns the predictor raises no \<^verbatim>\<open>KeyError\<close>: it returns a
  prediction for every history and every pair of assessments.
\<close>

lemma make_prediction_total:
  assumes "list_all wf_pattern patterns"
  shows "\<exists>p. make_prediction results patterns risk_a manipulation_a = Inr p"
proof (cases "find (\<lambda>p. ptype p = compensation_pending) patterns")
  case None
  then show ?thesis
    using cycle_prediction_total by (simp add: make_prediction_def)
next
  case (Some cp)
  then have "cp \<in> set patterns" "ptype cp = compensation_pending"
    by (auto simp: find_Some_iff)
  with assms have "wf_pattern cp" by (simp add: list_all_iff)
  with \<open>ptype cp = compensation_pending\<close> obtain c where "lookup_favored_color cp = Inr c"
    using lookup_favored_color_wf by blast
  with Some show ?thesis
    using cycle_prediction_total by (simp add: make_prediction_def)
qed


section \<open>Witnesses\<close>

theorem predict_next_in_cycle_eq_witness:
  "[V, V, C] \<noteq> [] \<and> non_empate [C, V, E, C] \<noteq> []
   \<and> predict_next_in_cycle [C, V, E, C] [V, V, C] = Some V"
  using predict_next_in_cycle_eq [of "[V, V, C]" "[C, V, E, C]"] by simp

theorem frequency_prediction_color_witness:
  "non_empate [V, E, C, C, V] \<noteq> []
   \<and> color (frequency_prediction [V, E, C, C, V] initial_prediction) = Some V"
  using frequency_prediction_color [of "[V, E, C, C, V]" initial_prediction]
  by (simp add: dominant_def other_color_def)

theorem frequency_prediction_spec_witness:
  "non_empate [C, V, V] \<noteq> []
   \<and> (\<exists>c. color (frequency_prediction [C, V, V] initial_prediction) = Some c
        \<and> 50 \<le> confidence (frequency_prediction [C, V, V] initial_prediction)
        \<and> confidence (frequency_prediction [C, V, V] initial_prediction) \<le> 75)"
proof -
  have ne: "non_empate [C, V, V] \<noteq> []" by simp
  from frequency_prediction_spec [OF ne, of initial_prediction] ne show ?thesis by blast
qed

theorem make_prediction_critical_witness:
  "make_prediction [C, V] [] \<lparr>r_level = critical, r_score = 100, factors = []\<rparr>
     \<lparr>m_level = low, m_score = 0, signs = []\<rparr> =
       Inr \<lparr>color = None, confidence = 0, reasoning = Condicoes_criticas,
            strategy = PARAR_COMPLETAMENTE\<rparr>"
  by (rule make_prediction_critical) simp

theorem make_prediction_blocked_witness:
  "\<exists>p. make_prediction [C, V] [] \<lparr>r_level = low, r_score = 0, factors = []\<rparr>
         \<lparr>m_level = high, m_score = 60, signs = []\<rparr> = Inr p
     \<and> color p = None \<and> confidence p = 0
     \<and> (strategy p = PARAR_COMPLETAMENTE \<or> strategy p = AGUARDAR_NORMALIZACAO)"
  by (rule make_prediction_blocked) simp

theorem make_prediction_total_witness:
  "\<exists>p. make_prediction [C, V]
         [\<lparr>ptype = compensation_pending, strength = 7 / 15, risk = medium,
           description = Compensacao_pendente 4 11, manipulation = Deve_favorecer C,
           predictability = 208 / 3, extra = compensation_extra 15 7 C\<rparr>]
         \<lparr>r_level = low, r_score = 0, factors = []\<rparr>
         \<lparr>m_level = low, m_score = 0, signs = []\<rparr> = Inr p"
  by (rule make_prediction_total) (simp add: wf_pattern_def)


end
