(* ===== verification/Pipeline.thy ===== *)
theory Pipeline
  imports Micro_Patterns Hidden_Cycles Compensation Strategic_Ties Prediction
begin

text \<open>
  The analysis pipeline inside \<^verbatim>\<open>main\<close> (lines 328 to 340 of \<^verbatim>\<open>src/Hacker.py\<close>):
  the four detectors, the concatenation of their outputs, the two scorers and
  the predictor, called in this order on the history of the session.

  \<open>analyze\<close> is the block under the spinner: its result is the error the
  predictor raises or the \<open>report\<close> of the four values the script renders.
  \<open>collect_patterns\<close> names the concatenated list (line 336) for the statements.
  \<open>decide\<close> is the specification of the predictor inside the pipeline: a
  three-way decision by the two levels and the history alone.

  The lemmas on the collected patterns show that every collected pattern is
  well formed, that below twelve non-tie results only micro and tie patterns
  are collected, and that from twelve on a hidden cycle of predictability 80 or
  more is among them. From these the theorems derive that \<open>analyze\<close> never
  raises, that it implements \<open>decide\<close>, and that from twelve non-tie results
  on it never names a colour.
\<close>

section \<open>Definitions\<close>

record report =
  patterns :: "pattern list"
  risk_of :: risk_assessment
  manipulation_of :: manipulation_assessment
  prediction_of :: prediction

definition analyze :: "history \<Rightarrow> py_error + report" where
  "analyze h =
     (let micro_patterns = analyze_micro_patterns h;
          hidden_cycles = detect_hidden_cycles h;
          compensation_patterns = analyze_compensation_patterns h;
          strategic_ties = analyze_strategic_ties h;
          ps = micro_patterns @ hidden_cycles @ compensation_patterns @ strategic_ties;
          risk_a = assess_risk ps;
          manipulation_a = detect_manipulation ps risk_a
      in case make_prediction h ps risk_a manipulation_a of
           Inl e \<Rightarrow> Inl e
         | Inr p \<Rightarrow> Inr \<lparr>patterns = ps, risk_of = risk_a,
                         manipulation_of = manipulation_a, prediction_of = p\<rparr>)"

text \<open>The list the scorers and the predictor receive (line 336), named for the statements.\<close>

definition collect_patterns :: "history \<Rightarrow> pattern list" where
  "collect_patterns h =
     analyze_micro_patterns h @ detect_hidden_cycles h
       @ analyze_compensation_patterns h @ analyze_strategic_ties h"

text \<open>The decision of the predictor in closed form (a specification).\<close>

definition decide :: "history \<Rightarrow> risk_assessment \<Rightarrow> manipulation_assessment \<Rightarrow> prediction" where
  "decide h risk_a manipulation_a =
     (if r_level risk_a = critical \<or> m_level manipulation_a = critical
      then \<lparr>color = None, confidence = 0, reasoning = Condicoes_criticas,
            strategy = PARAR_COMPLETAMENTE\<rparr>
      else if m_level manipulation_a = high
      then \<lparr>color = None, confidence = 0, reasoning = Manipulacao_alta,
            strategy = AGUARDAR_NORMALIZACAO\<rparr>
      else frequency_prediction h initial_prediction)"

section \<open>The collected patterns\<close>

lemma wf_collect_patterns: "list_all wf_pattern (collect_patterns h)"
  by (simp add: collect_patterns_def analyze_micro_patterns_wf detect_hidden_cycles_wf
      analyze_compensation_patterns_wf analyze_strategic_ties_wf)

lemma collect_patterns_short:
  "length (non_empate h) < 12 \<Longrightarrow>
     collect_patterns h = analyze_micro_patterns h @ analyze_strategic_ties h"
  by (simp add: collect_patterns_def detect_hidden_cycles_short
      analyze_compensation_patterns_short)

lemma collect_patterns_long:
  assumes "12 \<le> length (non_empate h)"
  shows "\<exists>p \<in> set (collect_patterns h). ptype p = hidden_cycle \<and> 80 \<le> predictability p"
proof -
  from assms obtain p where "p \<in> set (detect_hidden_cycles h)"
    using detect_hidden_cycles_nonempty [of h] by (cases "detect_hidden_cycles h") auto
  then show ?thesis
    using detect_hidden_cycles_ptype by (fastforce simp: collect_patterns_def)
qed

lemma find_None_ptype:
  "(\<And>p. p \<in> set ps \<Longrightarrow> ptype p \<noteq> t) \<Longrightarrow> find (\<lambda>p. ptype p = t \<and> Q p) ps = None"
  by (auto simp: find_None_iff)

lemma collect_patterns_short_ptype:
  assumes "length (non_empate h) < 12" and "p \<in> set (collect_patterns h)"
  shows "ptype p \<noteq> compensation_pending \<and> ptype p \<noteq> hidden_cycle"
  using assms analyze_micro_patterns_ptype [of p h] analyze_strategic_ties_ptype [of p h]
  by (auto simp: collect_patterns_short startswith_strategic_tie_def)

lemma make_prediction_short:
  assumes "length (non_empate h) < 12"
  shows "make_prediction h (collect_patterns h) risk_a manipulation_a =
     Inr (if r_level risk_a = critical \<or> m_level manipulation_a = critical
          then initial_prediction\<lparr>reasoning := Condicoes_criticas,
                 strategy := PARAR_COMPLETAMENTE\<rparr>
          else if m_level manipulation_a = high
          then initial_prediction\<lparr>reasoning := Manipulacao_alta,
                 strategy := AGUARDAR_NORMALIZACAO\<rparr>
          else frequency_prediction h initial_prediction)"
proof -
  have "find (\<lambda>p. ptype p = compensation_pending \<and> True) (collect_patterns h) = None"
    using collect_patterns_short_ptype [OF assms] by (intro find_None_ptype) simp
  moreover have "find (\<lambda>p. ptype p = hidden_cycle \<and> get_repetitions p \<ge> 2)
      (collect_patterns h) = None"
    using collect_patterns_short_ptype [OF assms] by (intro find_None_ptype) simp
  ultimately show ?thesis
    by (simp add: make_prediction_def cycle_prediction_def)
qed

lemma make_prediction_long:
  assumes "12 \<le> length (non_empate h)"
    and "high \<le> m_level manipulation_a"
  shows "make_prediction h ps risk_a manipulation_a =
     Inr (if r_level risk_a = critical \<or> m_level manipulation_a = critical
          then initial_prediction\<lparr>reasoning := Condicoes_criticas,
                 strategy := PARAR_COMPLETAMENTE\<rparr>
          else initial_prediction\<lparr>reasoning := Manipulacao_alta,
                 strategy := AGUARDAR_NORMALIZACAO\<rparr>)"
  using assms(2) by (auto simp: make_prediction_def high_le_iff)

lemma manipulation_long:
  assumes "12 \<le> length (non_empate h)"
  shows "high \<le> m_level (detect_manipulation (collect_patterns h) risk_a)"
  using collect_patterns_long [OF assms] detect_manipulation_high by blast

lemma make_prediction_pipeline:
  "make_prediction h (collect_patterns h) risk_a
       (detect_manipulation (collect_patterns h) risk_a) =
     Inr (let manipulation_a = detect_manipulation (collect_patterns h) risk_a
          in if r_level risk_a = critical \<or> m_level manipulation_a = critical
          then initial_prediction\<lparr>reasoning := Condicoes_criticas,
                 strategy := PARAR_COMPLETAMENTE\<rparr>
          else if m_level manipulation_a = high
          then initial_prediction\<lparr>reasoning := Manipulacao_alta,
                 strategy := AGUARDAR_NORMALIZACAO\<rparr>
          else frequency_prediction h initial_prediction)"
proof (cases "length (non_empate h) < 12")
  case True
  then show ?thesis by (simp add: make_prediction_short Let_def)
next
  case False
  then have long: "12 \<le> length (non_empate h)" by simp
  then have "high \<le> m_level (detect_manipulation (collect_patterns h) risk_a)"
    by (rule manipulation_long)
  then show ?thesis
    by (auto simp: make_prediction_long [OF long] Let_def high_le_iff)
qed

lemma analyze_collect:
  "analyze h =
     (case make_prediction h (collect_patterns h) (assess_risk (collect_patterns h))
             (detect_manipulation (collect_patterns h) (assess_risk (collect_patterns h))) of
        Inl e \<Rightarrow> Inl e
      | Inr p \<Rightarrow>
          Inr \<lparr>patterns = collect_patterns h,
               risk_of = assess_risk (collect_patterns h),
               manipulation_of =
                 detect_manipulation (collect_patterns h) (assess_risk (collect_patterns h)),
               prediction_of = p\<rparr>)"
  unfolding analyze_def collect_patterns_def Let_def by (rule refl)

lemma analyze_decide:
  "analyze h =
     Inr \<lparr>patterns = collect_patterns h,
          risk_of = assess_risk (collect_patterns h),
          manipulation_of =
            detect_manipulation (collect_patterns h) (assess_risk (collect_patterns h)),
          prediction_of =
            decide h (assess_risk (collect_patterns h))
              (detect_manipulation (collect_patterns h) (assess_risk (collect_patterns h)))\<rparr>"
  by (simp add: analyze_collect make_prediction_pipeline Let_def decide_def
      initial_prediction_def)

section \<open>Shared facts\<close>

lemma frequency_prediction_strategy:
  "strategy (frequency_prediction h initial_prediction) = AGUARDAR_MELHORES_CONDICOES
     \<and> color (frequency_prediction h initial_prediction) = None
   \<or> strategy (frequency_prediction h initial_prediction) = APOSTAR_NA_PRINCIPAL_COR
     \<and> non_empate h \<noteq> []"
proof (cases "non_empate h = []")
  case True
  then show ?thesis by (simp add: frequency_prediction_Nil initial_prediction_def)
next
  case False
  then show ?thesis
    using frequency_prediction_Some [of h initial_prediction] by auto
qed

lemma decide_color:
  assumes "color (decide h risk_a manipulation_a) = Some c"
  shows "decide h risk_a manipulation_a = frequency_prediction h initial_prediction
     \<and> m_level manipulation_a < high"
  using assms by (cases "m_level manipulation_a") (auto simp: decide_def less_level_def split: if_splits)

section \<open>The pipeline\<close>

text \<open>
  C3: The analysis of a history never raises: it returns a report whose patterns
  are the concatenation of the four detector outputs in the order of the
  source, all of them well formed, whose risk is scored on these patterns and
  whose manipulation is scored on these patterns and this risk.
\<close>

theorem analyze_total:
  "\<exists>r. analyze h = Inr r
     \<and> patterns r = analyze_micro_patterns h @ detect_hidden_cycles h
          @ analyze_compensation_patterns h @ analyze_strategic_ties h
     \<and> list_all wf_pattern (patterns r)
     \<and> risk_of r = assess_risk (patterns r)
     \<and> manipulation_of r = detect_manipulation (patterns r) (risk_of r)"
  using wf_collect_patterns [of h]
  by (simp add: analyze_def Let_def collect_patterns_def [symmetric] make_prediction_pipeline)

text \<open>
  C2: In the pipeline the predictor decides by the two levels and the history
  alone: stop on a critical level, wait on a high manipulation level, and
  otherwise the frequency fallback. The compensation branch and the cycle
  branch of the predictor never decide.
\<close>

theorem analyze_prediction_cases:
  "\<exists>r. analyze h = Inr r \<and> prediction_of r = decide h (risk_of r) (manipulation_of r)"
  by (simp add: analyze_def Let_def collect_patterns_def [symmetric] make_prediction_pipeline
      decide_def initial_prediction_def)

text \<open>
  C15: The strategies of betting on a compensation and of following a cycle are
  never recommended by the analysis of any history.
\<close>

theorem analyze_dead_strategies:
  "\<exists>r. analyze h = Inr r
     \<and> strategy (prediction_of r) \<noteq> APOSTAR_COMPENSACAO
     \<and> strategy (prediction_of r) \<noteq> SEGUIR_CICLO"
  using frequency_prediction_strategy [of h]
  by (auto simp: analyze_decide decide_def)

text \<open>
  C1: From twelve non-tie results on, the analysis finds a hidden cycle, the
  manipulation level is high or critical, and the prediction names no colour,
  has confidence 0 and tells the user to stop or to wait.
\<close>

theorem no_color_from_twelve:
  assumes "12 \<le> length (non_empate h)"
  shows "\<exists>r. analyze h = Inr r
     \<and> (\<exists>p \<in> set (patterns r). ptype p = hidden_cycle \<and> 80 \<le> predictability p)
     \<and> high \<le> m_level (manipulation_of r)
     \<and> color (prediction_of r) = None \<and> confidence (prediction_of r) = 0
     \<and> (strategy (prediction_of r) = PARAR_COMPLETAMENTE
          \<or> strategy (prediction_of r) = AGUARDAR_NORMALIZACAO)"
  using manipulation_long [OF assms, of "assess_risk (collect_patterns h)"]
    collect_patterns_long [OF assms]
  by (auto simp: analyze_def Let_def collect_patterns_def [symmetric] make_prediction_pipeline
      initial_prediction_def high_le_iff)

text \<open>
  C14: Whenever the analysis names a colour, the history has fewer than twelve
  non-tie results, the manipulation level is below high, and the prediction is
  the frequency fallback on the history.
\<close>

theorem analyze_color_only_frequency:
  assumes "analyze h = Inr r" and "color (prediction_of r) = Some c"
  shows "length (non_empate h) < 12 \<and> non_empate h \<noteq> []
     \<and> m_level (manipulation_of r) < high
     \<and> prediction_of r = frequency_prediction h initial_prediction
     \<and> strategy (prediction_of r) = APOSTAR_NA_PRINCIPAL_COR"
proof -
  let ?ps = "collect_patterns h"
  let ?m = "detect_manipulation ?ps (assess_risk ?ps)"
  from assms(1) have r: "manipulation_of r = ?m"
      "prediction_of r = decide h (assess_risk ?ps) ?m"
    by (auto simp: analyze_decide)
  with assms(2) have d: "prediction_of r = frequency_prediction h initial_prediction"
      "m_level ?m < high"
    using decide_color by auto
  then have "\<not> 12 \<le> length (non_empate h)"
    using manipulation_long [of h "assess_risk ?ps"] by auto
  moreover from d(1) assms(2) have "non_empate h \<noteq> []"
      "strategy (prediction_of r) = APOSTAR_NA_PRINCIPAL_COR"
    using frequency_prediction_strategy [of h] by auto
  ultimately show ?thesis
    using r d by simp
qed

text \<open>
  C32: On a history of fewer than six results no detector emits a pattern, both
  assessments are low with score 0, and the prediction is the frequency
  fallback on the history.
\<close>

theorem analyze_short_history:
  assumes "length h < 6"
  shows "analyze h =
     Inr \<lparr>patterns = [],
          risk_of = \<lparr>r_level = low, r_score = 0, factors = []\<rparr>,
          manipulation_of = \<lparr>m_level = low, m_score = 0, signs = []\<rparr>,
          prediction_of = frequency_prediction h initial_prediction\<rparr>"
proof -
  from assms have "length (non_empate h) < 12"
    using length_non_empate_le [of h] by simp
  with assms have "collect_patterns h = []"
    by (simp add: collect_patterns_short analyze_micro_patterns_short
        analyze_strategic_ties_short)
  then show ?thesis
    by (simp add: analyze_decide assess_risk_Nil detect_manipulation_Nil decide_def)
qed

section \<open>Witnesses\<close>

theorem no_color_from_twelve_witness:
  "12 \<le> length (non_empate (replicate 12 V))
   \<and> (\<exists>r. analyze (replicate 12 V) = Inr r
     \<and> (\<exists>p \<in> set (patterns r). ptype p = hidden_cycle \<and> 80 \<le> predictability p)
     \<and> high \<le> m_level (manipulation_of r)
     \<and> color (prediction_of r) = None \<and> confidence (prediction_of r) = 0
     \<and> (strategy (prediction_of r) = PARAR_COMPLETAMENTE
          \<or> strategy (prediction_of r) = AGUARDAR_NORMALIZACAO))"
  using no_color_from_twelve [of "replicate 12 V"] by simp

theorem analyze_short_history_witness:
  "length [C, E, C] < 6
   \<and> analyze [C, E, C] =
     Inr \<lparr>patterns = [],
          risk_of = \<lparr>r_level = low, r_score = 0, factors = []\<rparr>,
          manipulation_of = \<lparr>m_level = low, m_score = 0, signs = []\<rparr>,
          prediction_of = \<lparr>color = Some C, confidence = 75,
            reasoning = Frequencia_historica C 2 2, strategy = APOSTAR_NA_PRINCIPAL_COR\<rparr>\<rparr>"
  using analyze_short_history [of "[C, E, C]"]
  by (simp add: frequency_prediction_def initial_prediction_def Counter_def py_max_def
      Let_def)

theorem analyze_color_only_frequency_witness:
  "analyze [V, C, V] =
     Inr \<lparr>patterns = [], risk_of = \<lparr>r_level = low, r_score = 0, factors = []\<rparr>,
          manipulation_of = \<lparr>m_level = low, m_score = 0, signs = []\<rparr>,
          prediction_of = \<lparr>color = Some V, confidence = 200 / 3,
            reasoning = Frequencia_historica V 2 3, strategy = APOSTAR_NA_PRINCIPAL_COR\<rparr>\<rparr>
   \<and> length (non_empate [V, C, V]) < 12"
proof -
  have a: "analyze [V, C, V] =
     Inr \<lparr>patterns = [], risk_of = \<lparr>r_level = low, r_score = 0, factors = []\<rparr>,
          manipulation_of = \<lparr>m_level = low, m_score = 0, signs = []\<rparr>,
          prediction_of = \<lparr>color = Some V, confidence = 200 / 3,
            reasoning = Frequencia_historica V 2 3, strategy = APOSTAR_NA_PRINCIPAL_COR\<rparr>\<rparr>"
    by (simp add: analyze_decide collect_patterns_short analyze_micro_patterns_short
        analyze_strategic_ties_short assess_risk_Nil detect_manipulation_Nil decide_def
        frequency_prediction_def initial_prediction_def Counter_def py_max_def Let_def)
  from analyze_color_only_frequency [OF a] show ?thesis
    using a by simp
qed

end
