(* ===== verification/Host.thy ===== *)
theory Host
  imports Pipeline
begin

text \<open>
  The function \<^verbatim>\<open>main\<close> (lines 293 to 369 of \<^verbatim>\<open>src/Hacker.py\<close>): the host of the
  engine.

  The script is run once per interaction. Its state is the history kept in the
  session (\<open>None\<close> before the first run, when the key is not yet in the session
  state); its input is the set of buttons that report a click in this run
  (\<open>buttons\<close>, five independent booleans: the script itself does not assume
  that only one of them is set). \<open>append_results\<close> is the sequence of the
  three appending checks and the clearing check in the order of the source,
  \<open>undo_last\<close> the check of the undo button with its guarded \<^verbatim>\<open>pop\<close>, where
  \<open>py_pop\<close> raises \<^verbatim>\<open>IndexError\<close> on the empty list as Python does, and
  \<open>update_history\<close> the two in sequence. \<open>history_display\<close> is the coloured
  list shown most recent first, \<open>render\<close> the four sections of the report, and
  \<open>main\<close> the whole run. Its result (\<open>run_result\<close>) is the history left in
  the session, what the script has written, and the exception that ended the
  run, if any: what was written before an exception stays written. What the
  script writes is a list of \<open>st_output\<close> items, one per call of \<^verbatim>\<open>st.title\<close>,
  \<^verbatim>\<open>st.header\<close>, \<^verbatim>\<open>st.write\<close>, \<^verbatim>\<open>st.markdown\<close> or \<^verbatim>\<open>st.info\<close>, with the values
  its text interpolates; the layout of the widgets (\<^verbatim>\<open>st.columns\<close>,
  \<^verbatim>\<open>st.spinner\<close>) and the number formats are not modelled. \<open>Branco\<close> is the
  default of \<^verbatim>\<open>color_map.get\<close>, which no result of the three-letter alphabet
  reaches.

  A browser reports one click per run: \<open>press\<close> gives the buttons of a single
  click, \<open>click\<close> the step of the session under it, \<open>run\<close> a sequence of
  clicks that stops at the first exception, and \<open>reachable\<close> the histories a
  session can hold. The lemmas show that the guard of the undo button keeps
  \<^verbatim>\<open>pop\<close> from raising, give the effect of every click, the round trip of
  append and undo, the order of precedence when several buttons are set, and
  show that the reachable histories are all histories.
\<close>

section \<open>Definitions\<close>

record buttons =
  btn_c :: bool
  btn_v :: bool
  btn_e :: bool
  btn_clear :: bool
  btn_undo :: bool

definition py_pop :: "'a list \<Rightarrow> py_error + 'a list" where
  "py_pop xs = (if xs = [] then Inl IndexError else Inr (butlast xs))"

definition append_results :: "history option \<Rightarrow> buttons \<Rightarrow> history" where
  "append_results session b =
     (let h0 = (case session of None \<Rightarrow> [] | Some h \<Rightarrow> h);
          h1 = (if btn_c b then h0 @ [C] else h0);
          h2 = (if btn_v b then h1 @ [V] else h1);
          h3 = (if btn_e b then h2 @ [E] else h2)
      in if btn_clear b then [] else h3)"

definition undo_last :: "buttons \<Rightarrow> history \<Rightarrow> py_error + history" where
  "undo_last b h =
     (if btn_undo b then (if h \<noteq> [] then py_pop h else Inr h) else Inr h)"

definition update_history :: "history option \<Rightarrow> buttons \<Rightarrow> py_error + history" where
  "update_history session b = undo_last b (append_results session b)"

datatype square = Azul | Vermelho | Amarelo | Branco

definition color_map :: "outcome \<Rightarrow> square" where
  "color_map r = (case r of C \<Rightarrow> Azul | V \<Rightarrow> Vermelho | E \<Rightarrow> Amarelo)"

definition history_display :: "history \<Rightarrow> (square \<times> outcome) list" where
  "history_display h = map (\<lambda>r. (color_map r, r)) (rev h)"

datatype st_output =
    Title | Historico_atual | History_line "(square \<times> outcome) list" | Info_inicial
  | Header_padroes | Pattern_line descr ptype level | Nenhum_padrao
  | Header_risco | Risk_line level nat | Factor_line factor
  | Header_manipulacao | Manipulation_line level nat | Sign_line sign
  | Header_predicao | Aposta_sugerida outcome | Confianca rat | Razao reason
  | Estrategia strategy | Sem_predicao

definition render_patterns :: "pattern list \<Rightarrow> st_output list" where
  "render_patterns ps =
     Header_padroes #
     (if ps \<noteq> [] then map (\<lambda>p. Pattern_line (description p) (ptype p) (risk p)) ps
      else [Nenhum_padrao])"

definition render_risk :: "risk_assessment \<Rightarrow> st_output list" where
  "render_risk risk_a =
     Header_risco # Risk_line (r_level risk_a) (r_score risk_a) #
     (if factors risk_a \<noteq> [] then map Factor_line (factors risk_a) else [])"

definition render_manipulation :: "manipulation_assessment \<Rightarrow> st_output list" where
  "render_manipulation manipulation_a =
     Header_manipulacao # Manipulation_line (m_level manipulation_a) (m_score manipulation_a) #
     (if signs manipulation_a \<noteq> [] then map Sign_line (signs manipulation_a) else [])"

definition render_prediction :: "prediction \<Rightarrow> st_output list" where
  "render_prediction p =
     Header_predicao #
     (case color p of
        Some c \<Rightarrow> [Aposta_sugerida c, Confianca (confidence p), Razao (reasoning p),
                   Estrategia (strategy p)]
      | None \<Rightarrow> [Sem_predicao, Razao (reasoning p)])"

definition render :: "report \<Rightarrow> st_output list" where
  "render r =
     render_patterns (patterns r) @ render_risk (risk_of r)
       @ render_manipulation (manipulation_of r) @ render_prediction (prediction_of r)"

record run_result =
  session_history :: history
  written :: "st_output list"
  raised :: "py_error option"

definition main :: "history option \<Rightarrow> buttons \<Rightarrow> run_result" where
  "main session b =
     (let h4 = append_results session b
      in case undo_last b h4 of
           Inl e \<Rightarrow> \<lparr>session_history = h4, written = [Title], raised = Some e\<rparr>
         | Inr h \<Rightarrow>
             if h \<noteq> [] then
               (let shown = [Title, Historico_atual, History_line (history_display h)]
                in case analyze h of
                     Inl e \<Rightarrow> \<lparr>session_history = h, written = shown, raised = Some e\<rparr>
                   | Inr r \<Rightarrow>
                       \<lparr>session_history = h, written = shown @ render r, raised = None\<rparr>)
             else \<lparr>session_history = h, written = [Title, Info_inicial], raised = None\<rparr>)"

text \<open>Single clicks and runs of the session.\<close>

datatype click = Click_C | Click_V | Click_E | Click_clear | Click_undo

definition no_buttons :: buttons where
  "no_buttons = \<lparr>btn_c = False, btn_v = False, btn_e = False,
                 btn_clear = False, btn_undo = False\<rparr>"

fun press :: "click \<Rightarrow> buttons" where
  "press Click_C = no_buttons\<lparr>btn_c := True\<rparr>"
| "press Click_V = no_buttons\<lparr>btn_v := True\<rparr>"
| "press Click_E = no_buttons\<lparr>btn_e := True\<rparr>"
| "press Click_clear = no_buttons\<lparr>btn_clear := True\<rparr>"
| "press Click_undo = no_buttons\<lparr>btn_undo := True\<rparr>"

definition click :: "history \<Rightarrow> click \<Rightarrow> py_error + history" where
  "click h c = update_history (Some h) (press c)"

fun run :: "history \<Rightarrow> click list \<Rightarrow> py_error + history" where
  "run h [] = Inr h"
| "run h (c # cs) = (case click h c of Inl e \<Rightarrow> Inl e | Inr h' \<Rightarrow> run h' cs)"

inductive reachable :: "history \<Rightarrow> bool" where
  start: "update_history None no_buttons = Inr h \<Longrightarrow> reachable h"
| step: "reachable h \<Longrightarrow> click h c = Inr h' \<Longrightarrow> reachable h'"

fun append_click :: "outcome \<Rightarrow> click" where
  "append_click C = Click_C"
| "append_click V = Click_V"
| "append_click E = Click_E"

section \<open>The update of the history\<close>

lemma undo_last_eq: "undo_last b h = Inr (if btn_undo b then butlast h else h)"
  by (simp add: undo_last_def py_pop_def)

text \<open>
  C35: The update of the history never raises: the undo button pops only from a
  non-empty history, so the \<^verbatim>\<open>IndexError\<close> of \<^verbatim>\<open>pop\<close> cannot occur. The new
  history is the old one with the results of the appending buttons added in
  the order C, V, E, emptied if the clear button is set, and then without its
  last element if the undo button is set.
\<close>

theorem update_history_total:
  "update_history session b =
     Inr ((if btn_undo b then butlast else id)
            (if btn_clear b then []
             else (case session of None \<Rightarrow> [] | Some h \<Rightarrow> h)
                  @ (if btn_c b then [C] else []) @ (if btn_v b then [V] else [])
                  @ (if btn_e b then [E] else [])))"
  by (simp add: update_history_def undo_last_eq append_results_def)

lemma update_history_first_run [simp]: "update_history None no_buttons = Inr []"
  by (simp add: update_history_def undo_last_eq append_results_def no_buttons_def)

lemma update_history_idle [simp]: "update_history (Some h) no_buttons = Inr h"
  by (simp add: update_history_def undo_last_eq append_results_def no_buttons_def)

lemma click_simps [simp]:
  "click h Click_C = Inr (h @ [C])"
  "click h Click_V = Inr (h @ [V])"
  "click h Click_E = Inr (h @ [E])"
  "click h Click_clear = Inr []"
  "click h Click_undo = Inr (butlast h)"
  by (simp_all add: click_def update_history_def undo_last_eq append_results_def no_buttons_def)

lemma click_append [simp]: "click h (append_click x) = Inr (h @ [x])"
  by (cases x) simp_all

lemma click_total: "\<exists>h'. click h c = Inr h' \<and> length h' \<le> Suc (length h)"
  by (cases c) simp_all

text \<open>
  C39: The button that clears the history is checked after the three buttons
  that append: a run in which it reports a click leaves the history empty,
  whatever the session held and whatever the other buttons report.
\<close>

theorem update_history_clear_wins:
  "btn_clear b \<Longrightarrow> update_history session b = Inr []"
  by (simp add: update_history_def undo_last_eq append_results_def)

section \<open>Runs and reachable histories\<close>

lemma run_append [simp]:
  "run h (cs @ ds) = (case run h cs of Inl e \<Rightarrow> Inl e | Inr h' \<Rightarrow> run h' ds)"
  by (induction cs arbitrary: h) (simp_all split: sum.splits)

lemma run_appends [simp]: "run h (map append_click xs) = Inr (h @ xs)"
  by (induction xs arbitrary: h) simp_all

lemma run_undos: "run (h @ xs) (replicate (length xs) Click_undo) = Inr h"
proof (induction xs rule: rev_induct)
  case Nil
  show ?case by simp
next
  case (snoc x xs)
  have "butlast (h @ xs @ [x]) = h @ xs"
    using butlast_snoc [of "h @ xs" x] by simp
  with snoc show ?case by simp
qed

text \<open>
  C37: Appending any results, one click each, and then clicking undo once per
  appended result raises nothing and restores the history the session held
  before.
\<close>

theorem run_undo_roundtrip:
  "run h (map append_click xs @ replicate (length xs) Click_undo) = Inr h"
  by (simp add: run_undos)

lemma run_total: "\<exists>h'. run h cs = Inr h' \<and> length h' \<le> length h + length cs"
proof (induction cs arbitrary: h)
  case Nil
  show ?case by simp
next
  case (Cons c cs)
  from click_total [of h c] obtain h1 where h1: "click h c = Inr h1" "length h1 \<le> Suc (length h)"
    by blast
  from Cons.IH [of h1] obtain h' where "run h1 cs = Inr h'" "length h' \<le> length h1 + length cs"
    by blast
  with h1 show ?case by simp
qed

lemma reachable_run: "reachable h \<Longrightarrow> run h cs = Inr h' \<Longrightarrow> reachable h'"
proof (induction cs arbitrary: h)
  case Nil
  then show ?case by simp
next
  case (Cons c cs)
  from click_total [of h c] obtain h1 where h1: "click h c = Inr h1" by blast
  with Cons.prems(1) have "reachable h1" by (rule reachable.step)
  moreover from Cons.prems(2) h1 have "run h1 cs = Inr h'" by simp
  ultimately show ?case by (rule Cons.IH)
qed

lemma reachable_Nil: "reachable []"
  by (rule reachable.start) simp

text \<open>
  C38: Every history is reachable: the host restricts the histories the engine
  is run on in no way, so the properties of the engine are stated for all
  histories.
\<close>

theorem reachable_all: "reachable h"
proof -
  have "run [] (map append_click h) = Inr h" by simp
  with reachable_Nil show ?thesis by (rule reachable_run)
qed

lemma run_clear_restarts: "run h (cs @ Click_clear # map append_click xs) = Inr xs"
  using run_total [of h cs] by auto

section \<open>One run of the script\<close>

lemma main_eq:
  assumes "update_history session b = Inr h"
  shows "main session b =
     (if h = [] then \<lparr>session_history = h, written = [Title, Info_inicial], raised = None\<rparr>
      else case analyze h of
             Inl e \<Rightarrow> \<lparr>session_history = h,
                        written = [Title, Historico_atual, History_line (history_display h)],
                        raised = Some e\<rparr>
           | Inr r \<Rightarrow> \<lparr>session_history = h,
                        written = Title # Historico_atual # History_line (history_display h)
                                    # render r,
                        raised = None\<rparr>)"
  using assms by (simp add: main_def update_history_def Let_def split: sum.splits)

lemma main_history:
  "update_history session b = Inr h \<Longrightarrow> session_history (main session b) = h"
  by (simp add: main_eq split: sum.splits)

lemma history_display_recent_first:
  "history_display (h @ [x]) = (color_map x, x) # history_display h"
  by (simp add: history_display_def)

lemma map_snd_history_display: "map snd (history_display h) = rev h"
  by (simp add: history_display_def comp_def)

section \<open>The report\<close>

lemma length_render_parts:
  "length (render_patterns ps) = 1 + max 1 (length ps)"
  "length (render_risk risk_a) = 2 + length (factors risk_a)"
  "length (render_manipulation manipulation_a) = 2 + length (signs manipulation_a)"
  "length (render_prediction p) = (if color p = None then 3 else 5)"
  by (auto simp: render_patterns_def render_risk_def render_manipulation_def
      render_prediction_def Suc_leI max_def split: option.splits)

text \<open>
  The report has four headers, one line per pattern or the line that there
  is none, the two assessment lines with one line per factor and per sign, and
  four lines for a prediction with a colour or two for one without.
\<close>

lemma length_render:
  "length (render r) =
     4 + max 1 (length (patterns r)) + (1 + length (factors (risk_of r)))
       + (1 + length (signs (manipulation_of r)))
       + (if color (prediction_of r) = None then 2 else 4)"
  by (simp add: render_def length_render_parts)

lemma render_prediction_bet:
  "Aposta_sugerida c \<in> set (render_prediction p) \<longleftrightarrow> color p = Some c"
  "Sem_predicao \<in> set (render_prediction p) \<longleftrightarrow> color p = None"
  by (auto simp: render_prediction_def split: option.splits)

lemma render_bet:
  "Aposta_sugerida c \<in> set (render r) \<longleftrightarrow> color (prediction_of r) = Some c"
  "Sem_predicao \<in> set (render r) \<longleftrightarrow> color (prediction_of r) = None"
  by (auto simp: render_def render_prediction_bet render_patterns_def render_risk_def
      render_manipulation_def)

section \<open>Witnesses\<close>

theorem update_history_clear_wins_witness:
  "btn_clear (press Click_clear\<lparr>btn_c := True\<rparr>)
   \<and> update_history (Some [C, V]) (press Click_clear\<lparr>btn_c := True\<rparr>) = Inr []"
  using update_history_clear_wins [of "press Click_clear\<lparr>btn_c := True\<rparr>" "Some [C, V]"]
  by (simp add: no_buttons_def)

end
