(* ===== verification/Spec2Isabelle.thy ===== *)
theory Spec2Isabelle
  imports Host
begin

text \<open>
  A verification development for the pattern engine of \<^verbatim>\<open>src/Hacker.py\<close>.

  \<^bold>\<open>The program.\<close> The class \<^verbatim>\<open>CasinoAnalyzer\<close> holds a history of game results
  (\<^verbatim>\<open>'C'\<close> player, \<^verbatim>\<open>'V'\<close> banker, \<^verbatim>\<open>'E'\<close> tie) and offers four detectors that
  each return a list of pattern dictionaries, two scorers over the concatenated
  list, and a predictor that consumes the list and both scores. The function
  \<^verbatim>\<open>main\<close> is the host: it keeps the history in the session, appends, clears
  and undoes on button clicks, and on a non-empty history runs the detectors,
  the scorers and the predictor in this order and shows what they return.

  \<^bold>\<open>The library.\<close> One theory per method, in the order the pipeline calls them;
  every definition keeps the name of the function or variable it models.

  \<^item> \<open>Py_Prelude\<close>: the Python idioms the code uses, as executable functions
    with their lemmas: \<open>last_n\<close> (\<^verbatim>\<open>xs[-n:]\<close>), \<open>slice\<close> (\<^verbatim>\<open>xs[i:j]\<close>), \<open>py_range\<close>,
    \<open>count_where\<close> (\<^verbatim>\<open>sum(1 for ... if ...)\<close>), \<open>Counter\<close> as an association
    list in the order of first occurrence, and \<open>py_max\<close> (\<^verbatim>\<open>max\<close> with a key,
    which returns the first maximal element and so also models
    \<^verbatim>\<open>most_common(1)\<close>). It also holds the pigeonhole principle on lists.
  \<^item> \<open>Data_Model\<close>: \<open>outcome\<close>, \<open>history\<close>, \<open>non_empate\<close> (the comprehension
    that drops ties), \<open>level\<close> with its order as a \<open>linorder\<close> instance, the
    pattern dictionary as the record \<open>pattern\<close> whose optional keys are the
    field \<open>extra\<close>, the exceptions \<^verbatim>\<open>KeyError\<close> (a missing key) and
    \<^verbatim>\<open>IndexError\<close> (\<^verbatim>\<open>pop\<close> on an empty list) as \<open>py_error\<close>, and the invariant
    \<open>wf_pattern\<close>.
  \<^item> \<open>Micro_Patterns\<close>: \<^verbatim>\<open>analyze_micro_patterns\<close> (\<open>double_pattern_count\<close>,
    \<open>micro_alternations\<close>, the two dictionary literals, the method). The two
    index loops are shown equal to structural definitions (\<open>pair_hit\<close>,
    \<open>double_pairs\<close>, \<open>adjacent_changes\<close>), and the method to its reference
    over them.
  \<^item> \<open>Hidden_Cycles\<close>: \<^verbatim>\<open>detect_hidden_cycles\<close> (\<open>cycles_of\<close>,
    \<open>repeated_cycles\<close>, \<open>cycle_patterns\<close> for one cycle size, the method). The
    specification of one cycle size is \<open>most_repeated\<close>; the lemmas show
    soundness against it and, by the pigeonhole principle, that the detector
    always fires from twelve non-tie results on.
  \<^item> \<open>Compensation\<close>: \<^verbatim>\<open>analyze_compensation_patterns\<close> (\<open>window_patterns\<close> for
    one window size, the two dictionary literals, the method), with the
    specification functions \<open>imbalance_of\<close>, \<open>balance_ratio_of\<close> and \<open>minority\<close>
    and the characterisation of what the method emits for every history.
  \<^item> \<open>Strategic_Ties\<close>: \<^verbatim>\<open>analyze_strategic_ties\<close> (\<open>tie_positions\<close>, the
    nested function \<open>get_sequence_length\<close> with its loop \<open>sequence_scan\<close>,
    \<open>tie_patterns\<close> for one tie, the method).
  \<^item> \<open>Risk\<close>: \<^verbatim>\<open>assess_risk\<close> as a left fold of \<open>risk_step\<close>, refined to the
    table \<open>risk_rule\<close> of the rules.
  \<^item> \<open>Manipulation\<close>: \<^verbatim>\<open>detect_manipulation\<close> as a left fold of
    \<open>manipulation_step\<close>, refined to \<open>manipulation_points\<close>.
  \<^item> \<open>Prediction\<close>: \<^verbatim>\<open>predict_next_in_cycle\<close> and \<^verbatim>\<open>make_prediction\<close>, the
    latter with the result type \<open>py_error + prediction\<close>; its last two stages
    are \<open>cycle_prediction\<close> and \<open>frequency_prediction\<close>.
  \<^item> \<open>Pipeline\<close>: the call sequence of \<^verbatim>\<open>main\<close> between the construction of
    the analyzer and the report (lines 328 to 340): \<open>analyze\<close> runs the four
    detectors, concatenates their results, scores them and predicts;
    \<open>collect_patterns\<close> names the concatenation. \<open>decide\<close> is the
    specification of the predictor inside the pipeline. The properties of the
    whole pipeline are here.
  \<^item> \<open>Host\<close>: the rest of \<^verbatim>\<open>main\<close>: the button checks (\<open>append_results\<close>,
    \<open>undo_last\<close> with the fallible \<open>py_pop\<close>, \<open>update_history\<close>), the display
    of the history, the four sections of the report (\<open>render\<close>), one run of the
    script (\<open>main\<close>, whose result records the history left in the session, the
    output written and the exception raised, if any), and the session as a
    state machine over single clicks (\<open>click\<close>, \<open>run\<close>, \<open>reachable\<close>).
  \<^item> This theory: the properties of one run of the script from the buttons to
    the report.

  \<^bold>\<open>Correspondence of state and data.\<close> The only mutable state of the program is
  the session history; every method of the class is a function of
  \<^verbatim>\<open>self.results\<close>, which the model passes as the argument \<open>results\<close>. Local
  accumulators (\<^verbatim>\<open>patterns\<close>, \<^verbatim>\<open>risk_score\<close>, \<^verbatim>\<open>risk_factors\<close>) are the
  accumulators of folds or the results of list concatenations in the order of
  the \<^verbatim>\<open>append\<close> calls. Counts and scores are natural numbers; the values the
  code computes with \<^verbatim>\<open>/\<close> are exact rationals, which is faithful for every
  comparison the code makes: each one compares a quotient of two small naturals
  with a decimal literal, and the quotients that equal a literal (4/5 and 0.8,
  6/15 and 0.4, 3/4 and 0.75) round to the same double as the literal.
  Texts built by f-strings are constructors that carry the interpolated values.

  \<^bold>\<open>What the lemmas show.\<close>
  \<^item> For each detector: the empty result below its minimal length, the
    membership characterisation of what it emits (soundness against the
    structural specification and, for cycles and ties, completeness), a bound
    on the number of patterns, and that every emitted pattern satisfies
    \<open>wf_pattern\<close>.
  \<^item> For each scorer: refinement of the loop to the sum of a table, agreement
    of the level with the clamped score, monotonicity, and the characterisation
    of the level low.
  \<^item> For the predictor: the result on every branch, the colour of the
    fallback in closed form (\<open>dominant\<close>: the first non-tie result unless the
    other colour is strictly more frequent), totality on well-formed patterns,
    and the one situation in which it raises \<^verbatim>\<open>KeyError\<close>.
  \<^item> For the host: the update of the history never raises (the guard of the
    undo button), the effect of every click, the round trip of append and
    undo, that every history is reachable, and that a run of the script ends
    without an exception.
  \<^item> For the pipeline: \<open>analyze\<close> never raises and its report
    satisfies the invariant; from twelve non-tie results on a hidden cycle is
    always found, the manipulation level is high or critical and no colour is
    predicted; consequently the compensation branch and the cycle branch of the
    predictor never decide, and a colour is only
    ever predicted by the frequency fallback on fewer than twelve non-tie
    results.

  \<^bold>\<open>Bounds and fuel.\<close> No definition uses fuel: every loop of the program runs
  over a finite list or range and is modelled by a fold, a map over a range or a
  structural recursion, so every function is total. The theorems hold for
  histories of every length; no bound on the history is assumed.

  \<^bold>\<open>Restrictions of the model.\<close> Python's dictionaries and strings are typed
  here. A pattern always has its six common keys, and its optional keys come
  in the three groups the detectors write (\<open>Data_Model\<close>), so the only lookup
  that can fail in the model is \<^verbatim>\<open>p['favored_color']\<close>; a history holds only
  the letters C, V and E, which are all the host ever appends; the windows of
  the cycle detector are lists of letters in place of joined strings. The
  buttons of a run are five independent booleans, which covers the single
  click a browser reports and every other combination.

  \<^bold>\<open>Not modelled.\<close> The Streamlit runtime (the layout of the widgets with
  \<^verbatim>\<open>st.columns\<close> and \<^verbatim>\<open>st.spinner\<close>, the storage of the session, the rerun of
  the script on a click), the number formats (\<^verbatim>\<open>:.1f\<close>), accents and emoji of
  the texts, and binary floating point.
\<close>

section \<open>One run of the script\<close>

text \<open>
  C33: One run of the script never raises, neither in the update of the history
  nor in the analysis. On an empty history it writes the title and the
  invitation to click and stops before the analysis; on any other history it
  writes the title, the history and the rendered report of the analysis.
\<close>

theorem main_total:
  "\<exists>h out. update_history session b = Inr h
     \<and> main session b = \<lparr>session_history = h, written = out, raised = None\<rparr>
     \<and> (if h = [] then out = [Title, Info_inicial]
         else \<exists>r. analyze h = Inr r
                \<and> out = Title # Historico_atual # History_line (history_display h) # render r)"
proof -
  obtain h where h: "update_history session b = Inr h"
    by (simp add: update_history_def undo_last_eq)
  obtain r where "analyze h = Inr r"
    by (simp add: analyze_decide)
  with h show ?thesis
    by (simp add: main_eq)
qed

text \<open>
  C34: From twelve non-tie results on, a run of the script that leaves such a
  history in the session ends without an exception and writes that there is no
  reliable prediction, and never a suggested bet.
\<close>

theorem main_no_bet_from_twelve:
  assumes "12 \<le> length (non_empate (session_history (main session b)))"
  shows "raised (main session b) = None \<and> Sem_predicao \<in> set (written (main session b))
     \<and> (\<forall>c. Aposta_sugerida c \<notin> set (written (main session b)))"
proof -
  obtain h where h: "update_history session b = Inr h"
    by (simp add: update_history_def undo_last_eq)
  with assms have len: "12 \<le> length (non_empate h)"
    by (simp add: main_history)
  then have ne: "h \<noteq> []" by auto
  obtain r where r: "analyze h = Inr r" by (simp add: analyze_decide)
  with len have "high \<le> m_level (manipulation_of r)"
    using manipulation_long [of h] by (auto simp: analyze_decide)
  with r have "color (prediction_of r) = None"
    by (auto simp: analyze_decide decide_def high_le_iff)
  with ne r h show ?thesis
    by (simp add: main_eq render_bet)
qed

section \<open>Witnesses\<close>

theorem main_no_bet_from_twelve_witness:
  "12 \<le> length (non_empate (session_history (main (Some (replicate 11 V)) (press Click_V))))
   \<and> raised (main (Some (replicate 11 V)) (press Click_V)) = None
   \<and> Sem_predicao \<in> set (written (main (Some (replicate 11 V)) (press Click_V)))
   \<and> (\<forall>c. Aposta_sugerida c \<notin> set (written (main (Some (replicate 11 V)) (press Click_V))))"
proof -
  have "update_history (Some (replicate 11 V)) (press Click_V) = Inr (replicate 11 V @ [V])"
    using click_simps(2) [of "replicate 11 V"] by (simp add: click_def)
  then have "session_history (main (Some (replicate 11 V)) (press Click_V)) = replicate 11 V @ [V]"
    by (rule main_history)
  then have "12 \<le> length (non_empate (session_history (main (Some (replicate 11 V)) (press Click_V))))"
    by (simp add: non_empate_replicate)
  with main_no_bet_from_twelve [of "Some (replicate 11 V)" "press Click_V"] show ?thesis
    by blast
qed

end
